theory Spec2Isabelle
  imports Main
begin

section \<open>JavaScript strings and values\<close>

text \<open>
  A JavaScript string is modelled as a \<^typ>\<open>string\<close>; each \<^typ>\<open>char\<close> stands for one
  code unit below 256. A property that may be \<open>undefined\<close> (a field missing from a JSON
  payload) is a \<^typ>\<open>string option\<close>, with \<^term>\<open>None\<close> for \<open>undefined\<close>.
\<close>

definition truthy :: "string option \<Rightarrow> bool" where
  \<comment> \<open>JavaScript truthiness of a string-or-undefined: only a non-empty string is truthy.\<close>
  "truthy v = (case v of None \<Rightarrow> False | Some s \<Rightarrow> s \<noteq> [])"

definition orElse :: "string option \<Rightarrow> string \<Rightarrow> string" where
  \<comment> \<open>\<open>v || d\<close> for a string-or-undefined \<open>v\<close> and a string \<open>d\<close>.\<close>
  "orElse v d = (case v of None \<Rightarrow> d | Some s \<Rightarrow> if s = [] then d else s)"

definition tmpl :: "string option \<Rightarrow> string" where
  \<comment> \<open>\<open>${v}\<close> in a template literal: \<open>undefined\<close> prints as the word itself.\<close>
  "tmpl v = (case v of None \<Rightarrow> ''undefined'' | Some s \<Rightarrow> s)"

subsection \<open>\<open>escapeHtml\<close> (script.js 343-346, chat\_script.js 178-181)\<close>

definition replaceAll :: "char \<Rightarrow> string \<Rightarrow> string \<Rightarrow> string" where
  \<comment> \<open>\<open>s.replace(/c/g, rep)\<close> for a one-character pattern.\<close>
  "replaceAll c rep s = concat (map (\<lambda>x. if x = c then rep else [x]) s)"

definition escapeHtmlStr :: "string \<Rightarrow> string" where
  "escapeHtmlStr unsafe =
     replaceAll (CHR 0x27) ''&#039;''
       (replaceAll (CHR 0x22) ''&quot;''
         (replaceAll CHR ''>'' ''&gt;''
           (replaceAll CHR ''<'' ''&lt;''
             (replaceAll CHR ''&'' ''&amp;'' unsafe))))"

definition escapeHtml :: "string option \<Rightarrow> string" where
  \<comment> \<open>\<open>if (typeof unsafe !== 'string') return ''\<close>\<close>
  "escapeHtml unsafe = (case unsafe of None \<Rightarrow> [] | Some s \<Rightarrow> escapeHtmlStr s)"

subsection \<open>Numbers in template literals\<close>

definition digitChar :: "nat \<Rightarrow> char" where
  "digitChar d = char_of (48 + d)"

fun showNat :: "nat \<Rightarrow> string" where
  "showNat n = (if n < 10 then [digitChar n] else showNat (n div 10) @ [digitChar (n mod 10)])"

declare showNat.simps [simp del]

subsection \<open>\<open>toLowerCase\<close>, \<open>startsWith\<close>, \<open>trim\<close>\<close>

definition toLowerChar :: "char \<Rightarrow> char" where
  \<comment> \<open>Code units below 256: A-Z and the Latin-1 capitals (all of C0-DE but the
      multiplication sign D7) move up by 32, every other one is kept.\<close>
  "toLowerChar c =
     (let n = (of_char c :: nat)
      in if (65 \<le> n \<and> n \<le> 90) \<or> (192 \<le> n \<and> n \<le> 222 \<and> n \<noteq> 215)
         then char_of (n + 32) else c)"

definition toLowerCase :: "string \<Rightarrow> string" where
  "toLowerCase s = map toLowerChar s"

definition startsWith :: "string \<Rightarrow> string \<Rightarrow> bool" where
  "startsWith s p = (take (length p) s = p)"

definition isJsSpace :: "char \<Rightarrow> bool" where
  \<comment> \<open>White space and line terminators that \<open>trim\<close> strips, below 256:
      TAB, LF, VT, FF, CR, space and the no-break space.\<close>
  "isJsSpace c = (let n = (of_char c :: nat) in (9 \<le> n \<and> n \<le> 13) \<or> n = 32 \<or> n = 160)"

definition trim :: "string \<Rightarrow> string" where
  "trim s = rev (dropWhile isJsSpace (rev (dropWhile isJsSpace s)))"

subsection \<open>The regular expression of \<open>extractEmailAddress\<close> (script.js 337-341)\<close>

text \<open>
  The pattern \<^verbatim>\<open>/([\w\.-]+@[\w\.-]+)/\<close> is a sequence of three atoms: a greedy
  one-or-more repetition of a character class, a literal, and the repetition again.
  \<open>matchHere\<close> is the backtracking matcher anchored at the start of its input: a
  repetition consumes one character of the class, tries to go on repeating first, and
  falls back to the rest of the pattern only when that fails. \<open>regexMatch\<close> is
  \<open>String.prototype.match\<close> for a pattern without the \<open>g\<close> flag: the match at the
  leftmost start position, as \<open>match[0]\<close>.
\<close>

datatype atom = Lit char | Plus1 "char \<Rightarrow> bool"

fun matchHere :: "atom list \<Rightarrow> string \<Rightarrow> string option" where
  "matchHere [] s = Some []"
| "matchHere (Lit c # r) [] = None"
| "matchHere (Lit c # r) (x # t) =
     (if x = c then map_option (Cons x) (matchHere r t) else None)"
| "matchHere (Plus1 p # r) [] = None"
| "matchHere (Plus1 p # r) (x # t) =
     (if p x
      then (case matchHere (Plus1 p # r) t of
              Some m \<Rightarrow> Some (x # m)
            | None \<Rightarrow> map_option (Cons x) (matchHere r t))
      else None)"

fun regexMatch :: "atom list \<Rightarrow> string \<Rightarrow> string option" where
  "regexMatch re [] = matchHere re []"
| "regexMatch re (x # t) =
     (case matchHere re (x # t) of Some m \<Rightarrow> Some m | None \<Rightarrow> regexMatch re t)"

definition isWordChar :: "char \<Rightarrow> bool" where
  \<comment> \<open>\<open>\w\<close>: A-Z, a-z, 0-9 and the underscore.\<close>
  "isWordChar c =
     (let n = (of_char c :: nat)
      in (65 \<le> n \<and> n \<le> 90) \<or> (97 \<le> n \<and> n \<le> 122) \<or> (48 \<le> n \<and> n \<le> 57) \<or> n = 95)"

definition isAddrChar :: "char \<Rightarrow> bool" where
  \<comment> \<open>The class \<^verbatim>\<open>[\w\.-]\<close>.\<close>
  "isAddrChar c = (isWordChar c \<or> c = CHR ''.'' \<or> c = CHR ''-'')"

definition emailRegex :: "atom list" where
  "emailRegex = [Plus1 isAddrChar, Lit CHR ''@'', Plus1 isAddrChar]"

definition extractEmailAddress :: "string option \<Rightarrow> string" where
  "extractEmailAddress fromHeader =
     (case fromHeader of
        None \<Rightarrow> []
      | Some h \<Rightarrow>
          if h = [] then []
          else (case regexMatch emailRegex h of Some m \<Rightarrow> m | None \<Rightarrow> h))"

subsection \<open>The pre-filled reply subject (script.js 218)\<close>

definition replySubject :: "string option \<Rightarrow> string" where
  "replySubject subject =
     (if truthy subject \<and> startsWith (toLowerCase (orElse subject [])) ''re:''
      then orElse subject []
      else ''Re: '' @ orElse subject [])"

text \<open>
  What the specification calls an email-address-shaped token: a non-empty run of
  address characters, an at sign, and a non-empty run of address characters.
\<close>

definition emailShaped :: "string \<Rightarrow> bool" where
  "emailShaped t =
     (let a = takeWhile (\<lambda>c. c \<noteq> CHR ''@'') t; r = dropWhile (\<lambda>c. c \<noteq> CHR ''@'') t
      in a \<noteq> [] \<and> list_all isAddrChar a \<and> r \<noteq> [] \<and> tl r \<noteq> [] \<and> list_all isAddrChar (tl r))"

text \<open>
  What the specification calls a subject that starts with "re:" ignoring case,
  written out character by character.
\<close>

fun startsWithReIgnoringCase :: "string \<Rightarrow> bool" where
  "startsWithReIgnoringCase (c1 # c2 # c3 # rest) =
     ((c1 = CHR ''r'' \<or> c1 = CHR ''R'') \<and> (c2 = CHR ''e'' \<or> c2 = CHR ''E'') \<and> c3 = CHR '':'')"
| "startsWithReIgnoringCase _ = False"

definition matchEmail :: "string \<Rightarrow> string option" where
  \<comment> \<open>The closed form of \<open>matchHere emailRegex\<close> that the proofs work with
      (\<open>matchHere_emailRegex\<close> below shows the two equal).\<close>
  "matchEmail s =
     (let a = takeWhile isAddrChar s
      in if a = [] then None
         else (case dropWhile isAddrChar s of
                 [] \<Rightarrow> None
               | y # t \<Rightarrow>
                   if y = CHR ''@'' \<and> takeWhile isAddrChar t \<noteq> []
                   then Some (a @ CHR ''@'' # takeWhile isAddrChar t) else None))"

section \<open>The backend as seen from the page\<close>

text \<open>
  A \<open>fetch\<close> followed by \<open>response.json()\<close> ends in one of these ways: the fetch
  promise rejects (network failure) with an error message; or a response arrives with
  an HTTP status and a body that either fails to parse (the \<open>json()\<close> promise rejects
  with a message) or parses to a value. The value is \<open>null\<close>; or one of \<open>false\<close>,
  \<open>0\<close> and the empty string, which are falsy; or \<open>true\<close>, another number, a
  non-empty string or an array, which are truthy; or an object. Reading a property of
  \<open>null\<close> raises a TypeError. The values of the second and third kind have none of
  the properties that the handlers read, so that reading one gives \<open>undefined\<close>, as
  it does for an object without the field. The fields of an object are strings or
  missing; other JSON values in their place are outside this model.
\<close>

datatype 'a jsonValue = JsonNull | JsonFalsy | JsonTruthy | JsonObject 'a

datatype 'a jsonBody = NotJson string | Json "'a jsonValue"

definition properties :: "'a \<Rightarrow> 'a jsonValue \<Rightarrow> 'a option" where
  \<comment> \<open>The properties that can be read from a parsed value, \<^term>\<open>None\<close> when
      reading one raises a TypeError. The first argument is the record in which every
      property is \<open>undefined\<close>.\<close>
  "properties nothing v =
     (case v of
        JsonNull \<Rightarrow> None
      | JsonFalsy \<Rightarrow> Some nothing
      | JsonTruthy \<Rightarrow> Some nothing
      | JsonObject x \<Rightarrow> Some x)"

definition jsTruthy :: "'a jsonValue \<Rightarrow> bool" where
  "jsTruthy v = (case v of JsonNull \<Rightarrow> False | JsonFalsy \<Rightarrow> False | _ \<Rightarrow> True)"

datatype 'a fetched = Rejected string | Response nat "'a jsonBody"

definition ok :: "nat \<Rightarrow> bool" where
  \<comment> \<open>\<open>response.ok\<close>: the status is in the range 200-299.\<close>
  "ok st = (200 \<le> st \<and> st \<le> 299)"

definition nullRead :: "string \<Rightarrow> string" where
  \<comment> \<open>The message of the TypeError raised by reading a property of \<open>null\<close>
      (the wording of V8).\<close>
  \<open>nullRead prop = ''Cannot read properties of null (reading '' @ [CHR 0x27] @ prop @ [CHR 0x27] @ '')''\<close>

definition nullSet :: "string \<Rightarrow> string" where
  \<comment> \<open>The message of the TypeError raised by assigning to a property of \<open>null\<close>
      (the wording of V8).\<close>
  \<open>nullSet prop = ''Cannot set properties of null (setting '' @ [CHR 0x27] @ prop @ [CHR 0x27] @ '')''\<close>

record emailDetails =
  d_from :: "string option"
  d_subject :: "string option"
  d_body :: "string option"
  d_in_reply_to_header :: "string option"
  d_references_header :: "string option"
  d_error :: "string option"

record draftData =
  dr_draft :: "string option"
  dr_error :: "string option"

record sendResult =
  sr_status :: "string option"
  sr_message :: "string option"

definition noDetails :: emailDetails where
  "noDetails = \<lparr>d_from = None, d_subject = None, d_body = None, d_in_reply_to_header = None,
                d_references_header = None, d_error = None\<rparr>"

definition noDraftData :: draftData where
  "noDraftData = \<lparr>dr_draft = None, dr_error = None\<rparr>"

definition noSendResult :: sendResult where
  "noSendResult = \<lparr>sr_status = None, sr_message = None\<rparr>"

record sendPayload =
  sp_platform :: string
  sp_originalMessageId :: string
  sp_originalThreadId :: string
  sp_to :: string
  sp_subject :: string
  sp_body :: string
  sp_inReplyToHeader :: "string option"
  sp_referencesHeader :: "string option"

datatype request =
    GetEmailDetails string string
      \<comment> \<open>\<open>GET /email-details?platform=..&id=..\<close>\<close>
  | PostDraftAiReply string string "string option" "string option" "string option"
      \<comment> \<open>\<open>POST /draft-ai-reply\<close> with platform, userName, sender, subject, body\<close>
  | PostSendPlatformReply sendPayload
  | GetEmails
      \<comment> \<open>\<open>GET /emails?folder=inbox\<close>\<close>

text \<open>The continuation that waits for the answer to a request: the rest of the handler
  after its \<open>await\<close>.\<close>

datatype cont = AwaitDetails | AwaitDraft | AwaitRegenerate | AwaitSend | AwaitEmails

section \<open>The state of the inbox page (script.js)\<close>

datatype alertType = Info | Success | Warning | Danger

record banner =
  b_text :: string       \<comment> \<open>the message as inserted into the alert's HTML, escaped\<close>
  b_type :: alertType
  b_autoClose :: bool    \<comment> \<open>a timer was set to close the alert after 7 seconds\<close>

record dataset =
  ds_platform :: string
  ds_id :: string
  ds_threadId :: string
  ds_messageIdHeader :: string
  ds_referencesHeader :: string
  ds_inReplyToHeader :: string

record selectedEmail =
  platform :: string
  emailId :: string
  threadId :: string
  messageIdHeader :: string
  referencesHeader :: string
  inReplyToHeader :: string
  fullDetails :: "emailDetails option"

record ui =
  currentEmailForReply :: "selectedEmail option"
  statusMessagesGlobal :: "banner option"
  emailList :: "string list"              \<comment> \<open>the \<open>innerHTML\<close> given to each list item\<close>
  modalStatusMessages :: "banner option"
  modalShown :: bool
  modalHideTimers :: nat                   \<comment> \<open>\<open>setTimeout(() => draftModal.modal('hide'), 3000)\<close>\<close>
  modalOriginalSender :: string
  modalOriginalSubject :: string
  modalOriginalBody :: string
  modalReplyTo :: string
  modalReplySubject :: string
  modalReplyBody :: string
  sendReplyBtnModalDisabled :: bool
  regenerateDraftBtnModalDisabled :: bool
  network :: "request list"                \<comment> \<open>every request issued so far, oldest first\<close>
  pending :: "(request \<times> cont) list"       \<comment> \<open>the requests still in flight\<close>

definition USER_NAME_FOR_PROMPT :: string where
  "USER_NAME_FOR_PROMPT = ''Khurram''"

definition initialUi :: ui where
  \<comment> \<open>The page before any click; the text of the modal fields is that of the static
      page and plays no part below.\<close>
  "initialUi =
     \<lparr>currentEmailForReply = None, statusMessagesGlobal = None, emailList = [],
      modalStatusMessages = None, modalShown = False, modalHideTimers = 0,
      modalOriginalSender = [], modalOriginalSubject = [], modalOriginalBody = [],
      modalReplyTo = [], modalReplySubject = [], modalReplyBody = [],
      sendReplyBtnModalDisabled = False, regenerateDraftBtnModalDisabled = False,
      network = [], pending = []\<rparr>"

definition fetch :: "request \<Rightarrow> cont \<Rightarrow> ui \<Rightarrow> ui" where
  \<comment> \<open>\<open>await fetch(...)\<close>: the request goes out and the handler is suspended.\<close>
  "fetch rq k s = s\<lparr>network := network s @ [rq], pending := pending s @ [(rq, k)]\<rparr>"

definition displayGlobalStatus :: "string \<Rightarrow> alertType \<Rightarrow> bool \<Rightarrow> ui \<Rightarrow> ui" where
  "displayGlobalStatus message type persistent s =
     s\<lparr>statusMessagesGlobal :=
         Some \<lparr>b_text = escapeHtmlStr message, b_type = type,
               b_autoClose = (\<not> persistent \<and> (type = Success \<or> type = Info))\<rparr>\<rparr>"

definition displayModalStatus :: "string \<Rightarrow> alertType \<Rightarrow> bool \<Rightarrow> ui \<Rightarrow> ui" where
  "displayModalStatus message type persistent s =
     s\<lparr>modalStatusMessages :=
         Some \<lparr>b_text = escapeHtmlStr message, b_type = type,
               b_autoClose = (\<not> persistent \<and> (type \<noteq> Danger \<and> type \<noteq> Warning))\<rparr>\<rparr>"

definition enableControls :: "ui \<Rightarrow> ui" where
  \<comment> \<open>\<open>sendReplyBtnModal.disabled = false; regenerateDraftBtnModal.disabled = false;\<close>\<close>
  "enableControls s =
     s\<lparr>sendReplyBtnModalDisabled := False, regenerateDraftBtnModalDisabled := False\<rparr>"

definition disableControls :: "ui \<Rightarrow> ui" where
  "disableControls s =
     s\<lparr>sendReplyBtnModalDisabled := True, regenerateDraftBtnModalDisabled := True\<rparr>"

definition fetchAndDisplayEmails :: "ui \<Rightarrow> ui" where
  \<comment> \<open>script.js 112-116, up to its \<open>await\<close>.\<close>
  \<open>fetchAndDisplayEmails s =
     fetch GetEmails AwaitEmails
       ((displayGlobalStatus ''Fetching all inbox emails...'' Info False s)
          \<lparr>emailList := [''<li class="list-group-item text-center">Loading... <div class="spinner-border spinner-border-sm"></div></li>'']\<rparr>)\<close>

subsection \<open>The "draft reply" click (script.js 172-248)\<close>

definition clickEmailList :: "dataset option \<Rightarrow> ui \<Rightarrow> ui" where
  \<comment> \<open>Lines 173-199. The argument is the data of the closest \<open>.draft-reply-btn\<close>,
      \<^term>\<open>None\<close> when the click was not on such a button.\<close>
  "clickEmailList button s =
     (case button of
        None \<Rightarrow> s
      | Some b \<Rightarrow>
          fetch (GetEmailDetails (ds_platform b) (ds_id b)) AwaitDetails
            (disableControls
              ((displayModalStatus ''Loading email details and drafting reply...'' Info False
                 (s\<lparr>currentEmailForReply :=
                       Some \<lparr>platform = ds_platform b, emailId = ds_id b,
                             threadId = ds_threadId b,
                             messageIdHeader = ds_messageIdHeader b,
                             referencesHeader = ds_referencesHeader b,
                             inReplyToHeader = ds_inReplyToHeader b,
                             fullDetails = None\<rparr>,
                     modalStatusMessages := None\<rparr>))
               \<lparr>modalShown := True,
                modalOriginalSender := ''Loading...'',
                modalOriginalSubject := ''Loading...'',
                modalOriginalBody := ''Loading...'',
                modalReplyTo := [],
                modalReplySubject := [],
                modalReplyBody := ''AI is drafting... Please wait.''\<rparr>)))"

definition draftCatch :: "string \<Rightarrow> ui \<Rightarrow> ui" where
  \<comment> \<open>Lines 239-242, with the message of the error caught.\<close>
  "draftCatch message s =
     displayModalStatus (''Error during drafting process: '' @ message) Danger True
       (s\<lparr>modalReplyBody := ''Error: '' @ message\<rparr>)"

definition detailsChecked :: "emailDetails fetched \<Rightarrow> string + emailDetails" where
  \<comment> \<open>Lines 199-209: \<open>Inl\<close> the message of the error thrown on the way to line 211,
      \<open>Inr\<close> the properties of \<open>emailDetails\<close> when none is thrown.\<close>
  "detailsChecked r =
     (case r of
        Rejected message \<Rightarrow> Inl message
      | Response st body \<Rightarrow>
          if \<not> ok st then
            (case body of
               NotJson _ \<Rightarrow>
                 Inl (''Could not fetch details: '' @ showNat st @ '' - ''
                        @ ''Error fetching email details from server.'')
             | Json v \<Rightarrow>
                 (case properties noDetails v of
                    None \<Rightarrow> Inl (nullRead ''error'')
                  | Some errData \<Rightarrow>
                      Inl (''Could not fetch details: '' @ showNat st @ '' - ''
                             @ tmpl (d_error errData))))
          else
            (case body of
               NotJson message \<Rightarrow> Inl message
             | Json v \<Rightarrow>
                 (case properties noDetails v of
                    None \<Rightarrow> Inl (nullRead ''error'')
                  | Some d \<Rightarrow>
                      if \<not> jsTruthy v \<or> truthy (d_error d)
                      then Inl (orElse (d_error d)
                        ''Email details response from backend was empty or contained an error.'')
                      else Inr d)))"

definition detailsArrived :: "emailDetails fetched \<Rightarrow> ui \<Rightarrow> ui" where
  \<comment> \<open>The handler from the answer of the details fetch to its next \<open>await\<close>
      (line 220) or, after an error, to its end (lines 239-246).
      \<open>currentEmailForReply\<close> is the variable as it is now, not as it was at the click;
      it is never reset to \<open>null\<close>, and line 211 would raise a TypeError if it were.\<close>
  "detailsArrived r s =
     (case detailsChecked r of
        Inl message \<Rightarrow> enableControls (draftCatch message s)
      | Inr d \<Rightarrow>
          (case currentEmailForReply s of
             None \<Rightarrow> enableControls (draftCatch (nullSet ''fullDetails'') s)
           | Some cur \<Rightarrow>
               fetch (PostDraftAiReply (platform cur) USER_NAME_FOR_PROMPT
                        (d_from d) (d_subject d) (d_body d)) AwaitDraft
                 (s\<lparr>currentEmailForReply := Some (cur\<lparr>fullDetails := Some d\<rparr>),
                    modalOriginalSender := escapeHtml (d_from d),
                    modalOriginalSubject := escapeHtml (d_subject d),
                    modalOriginalBody := escapeHtml (d_body d),
                    modalReplyTo := extractEmailAddress (d_from d),
                    modalReplySubject := replySubject (d_subject d)\<rparr>)))"

definition draftArrived :: "draftData fetched \<Rightarrow> ui \<Rightarrow> ui" where
  \<comment> \<open>Lines 231-246: from the answer of the draft request to the end of the handler.\<close>
  "draftArrived r s =
     enableControls
       (case r of
          Rejected message \<Rightarrow> draftCatch message s
        | Response st body \<Rightarrow>
            (case body of
               NotJson message \<Rightarrow> draftCatch message s
             | Json v \<Rightarrow>
                 (case properties noDraftData v of
                    None \<Rightarrow> draftCatch (nullRead (if ok st then ''draft'' else ''error'')) s
                  | Some draftData \<Rightarrow>
                      if ok st \<and> truthy (dr_draft draftData)
                      then displayModalStatus ''AI draft generated!'' Success False
                             (s\<lparr>modalReplyBody := orElse (dr_draft draftData) []\<rparr>)
                      else displayModalStatus
                             (''Error from AI drafter: ''
                                @ orElse (dr_error draftData) ''Unknown error'')
                             Danger True
                             (s\<lparr>modalReplyBody :=
                                  ''Error generating draft: ''
                                    @ orElse (dr_error draftData) ''Unknown error''\<rparr>))))"

subsection \<open>The "regenerate" click (script.js 250-286)\<close>

definition clickRegenerate :: "ui \<Rightarrow> ui" where
  \<comment> \<open>Lines 251-257 and 283-285.\<close>
  "clickRegenerate s =
     (case currentEmailForReply s of
        None \<Rightarrow>
          displayModalStatus
            ''Original email data not available to regenerate draft. Please close and retry.''
            Warning True s
      | Some cur \<Rightarrow>
          (case fullDetails cur of
             None \<Rightarrow>
               displayModalStatus
                 ''Original email data not available to regenerate draft. Please close and retry.''
                 Warning True s
           | Some d \<Rightarrow>
               fetch (PostDraftAiReply (platform cur) USER_NAME_FOR_PROMPT
                        (d_from d) (d_subject d) (d_body d)) AwaitRegenerate
                 (disableControls
                   ((displayModalStatus ''Regenerating AI draft...'' Info False s)
                      \<lparr>modalReplyBody := ''AI is regenerating draft...''\<rparr>))))"

definition regenerateCatch :: "string \<Rightarrow> ui \<Rightarrow> ui" where
  \<comment> \<open>Lines 276-278.\<close>
  "regenerateCatch message s =
     displayModalStatus (''Could not connect to AI drafter: '' @ message) Danger True
       (s\<lparr>modalReplyBody := ''Error regenerating draft: '' @ message\<rparr>)"

definition regenerateArrived :: "draftData fetched \<Rightarrow> ui \<Rightarrow> ui" where
  \<comment> \<open>Lines 268-282.\<close>
  "regenerateArrived r s =
     enableControls
       (case r of
          Rejected message \<Rightarrow> regenerateCatch message s
        | Response st body \<Rightarrow>
            (case body of
               NotJson message \<Rightarrow> regenerateCatch message s
             | Json v \<Rightarrow>
                 (case properties noDraftData v of
                    None \<Rightarrow>
                      regenerateCatch (nullRead (if ok st then ''draft'' else ''error'')) s
                  | Some draftData \<Rightarrow>
                      if ok st \<and> truthy (dr_draft draftData)
                      then displayModalStatus ''AI draft regenerated!'' Success False
                             (s\<lparr>modalReplyBody := orElse (dr_draft draftData) []\<rparr>)
                      else displayModalStatus
                             (''Error from AI drafter: ''
                                @ orElse (dr_error draftData) ''Unknown error'')
                             Danger True
                             (s\<lparr>modalReplyBody :=
                                  ''Error regenerating draft: ''
                                    @ orElse (dr_error draftData) ''Unknown error''\<rparr>))))"

subsection \<open>The "send" click (script.js 288-335)\<close>

definition clickSend :: "ui \<Rightarrow> ui" where
  \<comment> \<open>Lines 290-318.\<close>
  "clickSend s =
     (case currentEmailForReply s of
        None \<Rightarrow> displayModalStatus ''Error: No email context for sending reply.'' Danger True s
      | Some cur \<Rightarrow>
          (case fullDetails cur of
             None \<Rightarrow>
               displayModalStatus ''Error: No email context for sending reply.'' Danger True s
           | Some d \<Rightarrow>
               (let to = trim (modalReplyTo s);
                    subject = trim (modalReplySubject s);
                    body = trim (modalReplyBody s)
                in if to = [] \<or> subject = [] \<or> body = []
                   then displayModalStatus ''To, Subject, and Body are required to send.''
                          Warning True s
                   else fetch (PostSendPlatformReply
                                 \<lparr>sp_platform = platform cur,
                                  sp_originalMessageId = emailId cur,
                                  sp_originalThreadId = threadId cur,
                                  sp_to = to, sp_subject = subject, sp_body = body,
                                  sp_inReplyToHeader = d_in_reply_to_header d,
                                  sp_referencesHeader = d_references_header d\<rparr>) AwaitSend
                          (disableControls
                            (displayModalStatus ''Sending reply...'' Info False s)))))"

definition sendCatch :: "string \<Rightarrow> ui \<Rightarrow> ui" where
  \<comment> \<open>Lines 329-334.\<close>
  "sendCatch message s =
     enableControls (displayModalStatus (''Failed to send reply: '' @ message) Danger True s)"

definition sendArrived :: "sendResult fetched \<Rightarrow> ui \<Rightarrow> ui" where
  \<comment> \<open>Lines 319-334. Line 321 reads \<open>currentEmailForReply\<close> as it is now.\<close>
  "sendArrived r s =
     (case r of
        Rejected message \<Rightarrow> sendCatch message s
      | Response st body \<Rightarrow>
          (case body of
             NotJson message \<Rightarrow> sendCatch message s
           | Json v \<Rightarrow>
               (case properties noSendResult v of
                  None \<Rightarrow> sendCatch (nullRead (if ok st then ''status'' else ''message'')) s
                | Some result \<Rightarrow>
                    if ok st \<and> sr_status result = Some ''success''
                    then (case currentEmailForReply s of
                            None \<Rightarrow> sendCatch (nullRead ''platform'') s
                          | Some cur \<Rightarrow>
                              fetchAndDisplayEmails
                                ((displayModalStatus
                                    (''Reply sent successfully via '' @ platform cur @ ''! ''
                                       @ orElse (sr_message result) [])
                                    Success False s)
                                   \<lparr>modalHideTimers := Suc (modalHideTimers s)\<rparr>))
                    else enableControls
                           (displayModalStatus
                              (''Error sending reply: ''
                                 @ orElse (sr_message result) ''Unknown error from server'')
                              Danger True s))))"

subsection \<open>The event loop\<close>

text \<open>
  One event is one run of a handler from a click or from the answer to an await until
  the handler's next await or its end; nothing else runs in between. An answer is
  delivered to a request in flight, named by its position in \<open>pending\<close>, and is
  dropped when there is no such request or when it is not an answer to that kind of
  request. Requests are never cancelled, and their answers may come in any order.
\<close>

datatype answer =
    DetailsAnswer "emailDetails fetched"
  | DraftAnswer "draftData fetched"
  | SendAnswer "sendResult fetched"

datatype event =
    ClickDraftReply dataset
  | ClickRegenerate
  | ClickSend
  | Arrive nat answer

definition removeAt :: "nat \<Rightarrow> 'a list \<Rightarrow> 'a list" where
  "removeAt k xs = take k xs @ drop (Suc k) xs"

definition deliver :: "cont \<Rightarrow> answer \<Rightarrow> (ui \<Rightarrow> ui) option" where
  "deliver k a =
     (case (k, a) of
        (AwaitDetails, DetailsAnswer r) \<Rightarrow> Some (detailsArrived r)
      | (AwaitDraft, DraftAnswer r) \<Rightarrow> Some (draftArrived r)
      | (AwaitRegenerate, DraftAnswer r) \<Rightarrow> Some (regenerateArrived r)
      | (AwaitSend, SendAnswer r) \<Rightarrow> Some (sendArrived r)
      | _ \<Rightarrow> None)"

definition step :: "event \<Rightarrow> ui \<Rightarrow> ui" where
  "step e s =
     (case e of
        ClickDraftReply b \<Rightarrow> clickEmailList (Some b) s
      | ClickRegenerate \<Rightarrow> clickRegenerate s
      | ClickSend \<Rightarrow> clickSend s
      | Arrive i a \<Rightarrow>
          if i < length (pending s)
          then (case deliver (snd (pending s ! i)) a of
                  Some handler \<Rightarrow> handler (s\<lparr>pending := removeAt i (pending s)\<rparr>)
                | None \<Rightarrow> s)
          else s)"

definition run :: "event list \<Rightarrow> ui \<Rightarrow> ui" where
  "run es s = fold step es s"

subsection \<open>The HTML of the inbox list (script.js 112-170)\<close>

record email =
  e_platform :: "string option"
  e_id :: "string option"
  e_threadId :: "string option"
  e_subject :: "string option"
  e_from :: "string option"
  e_date :: "string option"
  e_snippet :: "string option"
  e_message_id_header :: "string option"
  e_references_header :: "string option"
  e_in_reply_to_header :: "string option"

definition nl :: string where
  "nl = [CHR 0x0A]"

definition sp :: "nat \<Rightarrow> string" where
  "sp n = replicate n CHR '' ''"

definition emailItemHtml :: "(string \<Rightarrow> string) \<Rightarrow> email \<Rightarrow> string" where
  \<comment> \<open>Lines 129-161: the string assigned to \<open>listItem.innerHTML\<close>. The first argument
      is \<open>new Date(..).toLocaleString()\<close>, which depends on the browser's locale.\<close>
  \<open>emailItemHtml toLocaleString email =
     (let platformBadgeClass = (if e_platform email = Some ''gmail'' then ''badge-danger'' else ''badge-info'');
          platformName = (if e_platform email = Some ''gmail'' then ''Gmail'' else ''Outlook'');
          platformBadge = ''<span class="badge '' @ platformBadgeClass @ '' platform-badge">''
                            @ platformName @ ''</span>'';
          dateStr = (if truthy (e_date email) then toLocaleString (orElse (e_date email) [])
                     else ''N/A'')
      in nl
       @ sp 20 @ ''<div class="d-flex w-100 justify-content-between">'' @ nl
       @ sp 24 @ ''<h5 class="mb-1">'' @ platformBadge
               @ escapeHtmlStr (orElse (e_subject email) ''(No Subject)'') @ ''</h5>'' @ nl
       @ sp 24 @ ''<small title="'' @ escapeHtml (e_date email) @ ''">'' @ dateStr @ ''</small>'' @ nl
       @ sp 20 @ ''</div>'' @ nl
       @ sp 20 @ ''<p class="mb-1"><strong>From:</strong> ''
               @ escapeHtmlStr (orElse (e_from email) ''N/A'') @ ''</p>'' @ nl
       @ sp 20 @ ''<small class="email-snippet">''
               @ escapeHtmlStr (orElse (e_snippet email) []) @ ''</small>'' @ nl
       @ sp 20 @ ''<button class="btn btn-sm btn-outline-primary float-right draft-reply-btn" '' @ nl
       @ sp 28 @ ''data-platform="'' @ tmpl (e_platform email) @ ''" '' @ nl
       @ sp 28 @ ''data-id="'' @ tmpl (e_id email) @ ''" '' @ nl
       @ sp 28 @ ''data-thread-id="'' @ orElse (e_threadId email) [] @ ''"'' @ nl
       @ sp 28 @ ''data-message-id-header="''
               @ escapeHtmlStr (orElse (e_message_id_header email) []) @ ''"'' @ nl
       @ sp 28 @ ''data-references-header="''
               @ escapeHtmlStr (orElse (e_references_header email) []) @ ''"'' @ nl
       @ sp 28 @ ''data-in-reply-to-header="''
               @ escapeHtmlStr (orElse (e_in_reply_to_header email) []) @ ''"'' @ nl
       @ sp 28 @ ''>Draft Reply</button>'' @ nl
       @ sp 16)\<close>

definition emailsNotOkMessage :: "nat \<Rightarrow> string option jsonBody \<Rightarrow> string" where
  \<comment> \<open>Lines 117-120: the message of the error thrown for a response that is not ok;
      the body is the \<open>error\<close> field of the parsed payload.\<close>
  "emailsNotOkMessage st body =
     (case body of
        NotJson _ \<Rightarrow> ''Failed to fetch emails: '' @ showNat st @ '' - '' @ ''Server error fetching emails''
      | Json v \<Rightarrow>
          (case properties None v of
             None \<Rightarrow> nullRead ''error''
           | Some err \<Rightarrow> ''Failed to fetch emails: '' @ showNat st @ '' - '' @ tmpl err))"

definition emailListErrorHtml :: "string \<Rightarrow> string" where
  \<comment> \<open>Line 167: the string assigned to \<open>emailListEl.innerHTML\<close> in the catch block.\<close>
  \<open>emailListErrorHtml message =
     ''<li class="list-group-item list-group-item-danger">Error loading emails: '' @ message @ ''</li>''\<close>

fun isPrefixOf :: "string \<Rightarrow> string \<Rightarrow> bool" where
  "isPrefixOf [] s = True"
| "isPrefixOf (a # p) [] = False"
| "isPrefixOf (a # p) (x # t) = (a = x \<and> isPrefixOf p t)"

fun occursIn :: "string \<Rightarrow> string \<Rightarrow> bool" where
  \<comment> \<open>The first string occurs in the second.\<close>
  "occursIn p [] = isPrefixOf p []"
| "occursIn p (x # t) = (isPrefixOf p (x # t) \<or> occursIn p t)"

section \<open>The chat page (chat\_script.js)\<close>

record source =
  src_name :: "string option"
  src_webUrl :: "string option"

record chatData =
  c_response :: "string option"
  c_sources :: "source list"      \<comment> \<open>empty when the field is missing or \<open>null\<close>\<close>
  c_error :: "string option"

definition noChatData :: chatData where
  "noChatData = \<lparr>c_response = None, c_sources = [], c_error = None\<rparr>"

record chatTurn =
  role :: string
  content :: string

record chatMessage =
  cm_class :: string              \<comment> \<open>the class added besides \<open>message\<close>\<close>
  cm_html :: string               \<comment> \<open>the string assigned to \<open>messageDiv.innerHTML\<close>\<close>

record chat =
  chatHistory :: "chatTurn list"
  chatMessages :: "chatMessage list"
  userInput :: string
  sendBtnDisabled :: bool
  chatNetwork :: "(string \<times> string) list"
    \<comment> \<open>the \<open>query\<close> and \<open>history\<close> of every request issued so far\<close>
  chatPending :: "string list"
    \<comment> \<open>the requests in flight, each with the \<open>query\<close> its continuation holds\<close>

definition initialChat :: chat where
  "initialChat =
     \<lparr>chatHistory = [], chatMessages = [], userInput = [], sendBtnDisabled = False,
      chatNetwork = [], chatPending = []\<rparr>"

definition sourceHtml :: "source \<Rightarrow> string" where
  \<comment> \<open>Line 27.\<close>
  \<open>sourceHtml src =
     ''<li>'' @ escapeHtml (src_name src) @ '' ''
       @ (if truthy (src_webUrl src)
          then ''(<a href="'' @ orElse (src_webUrl src) [] @ ''" target="_blank">link</a>)''
          else [])
       @ ''</li>''\<close>

definition addMessageToChat :: "string \<Rightarrow> string \<Rightarrow> source list \<Rightarrow> chat \<Rightarrow> chat" where
  \<comment> \<open>Lines 18-36.\<close>
  \<open>addMessageToChat sender message sources s =
     (let messageHtml = ''<div class="message-content">''
                          @ replaceAll (CHR 0x0A) ''<br>'' (escapeHtmlStr message) @ ''</div>'';
          sourcesHtml = (if sources \<noteq> []
                         then ''<div class="sources"><strong>Sources:</strong><ul>''
                                @ concat (map sourceHtml sources) @ ''</ul></div>''
                         else [])
      in s\<lparr>chatMessages := chatMessages s @
              [\<lparr>cm_class = (if sender = ''user'' then ''user-message'' else ''ai-message''),
                cm_html = messageHtml @ sourcesHtml\<rparr>]\<rparr>)\<close>

definition historyString :: "chatTurn list \<Rightarrow> string" where
  \<comment> \<open>Lines 140-143.\<close>
  "historyString h =
     concat (map (\<lambda>msg. (if role msg = ''user'' then ''User'' else ''AI'') @ '': ''
                          @ content msg @ nl) h)"

definition handleUserMessage :: "chat \<Rightarrow> chat" where
  \<comment> \<open>Lines 132-150, up to the \<open>await\<close>.\<close>
  "handleUserMessage s =
     (let query = trim (userInput s)
      in if query = [] then s
         else (let s1 = (addMessageToChat ''user'' query [] s)
                          \<lparr>userInput := [], sendBtnDisabled := True\<rparr>
               in s1\<lparr>chatNetwork := chatNetwork s1 @ [(query, historyString (chatHistory s1))],
                     chatPending := chatPending s1 @ [query]\<rparr>))"

definition pushAndTrim :: "string \<Rightarrow> string \<Rightarrow> chatTurn list \<Rightarrow> chatTurn list" where
  \<comment> \<open>Lines 154-157: two \<open>push\<close>es, then \<open>splice(0, length - 20)\<close> when the length
      is above 20.\<close>
  "pushAndTrim query response h =
     (let h2 = (h @ [\<lparr>role = ''user'', content = query\<rparr>]) @ [\<lparr>role = ''ai'', content = response\<rparr>]
      in if length h2 > 20 then drop (length h2 - 20) h2 else h2)"

definition chatArrived :: "string \<Rightarrow> chatData fetched \<Rightarrow> chat \<Rightarrow> chat" where
  \<comment> \<open>Lines 151-168, for the continuation that holds \<open>query\<close>.\<close>
  "chatArrived query r s =
     (case r of
        Rejected message \<Rightarrow> addMessageToChat ''ai'' (''Error: '' @ message) [] s
      | Response st body \<Rightarrow>
          (case body of
             NotJson message \<Rightarrow> addMessageToChat ''ai'' (''Error: '' @ message) [] s
           | Json v \<Rightarrow>
               (case properties noChatData v of
                  None \<Rightarrow>
                    addMessageToChat ''ai''
                      (''Error: '' @ nullRead (if ok st then ''response'' else ''error'')) [] s
                | Some data \<Rightarrow>
                    if ok st \<and> truthy (c_response data)
                    then (let s1 = addMessageToChat ''ai'' (orElse (c_response data) [])
                                     (c_sources data) s
                          in s1\<lparr>chatHistory :=
                                  pushAndTrim query (orElse (c_response data) []) (chatHistory s1)\<rparr>)
                    else addMessageToChat ''ai''
                           (''Error: '' @ orElse (c_error data) ''Could not get a response.'') [] s)))
       \<lparr>sendBtnDisabled := False\<rparr>"

datatype chatEvent =
    TypeInput string
      \<comment> \<open>the user edits the input field\<close>
  | Submit
      \<comment> \<open>a click on the send button or the Enter key\<close>
  | ChatArrive nat "chatData fetched"
      \<comment> \<open>the answer to the request in flight at this position\<close>

definition chatStep :: "chatEvent \<Rightarrow> chat \<Rightarrow> chat" where
  "chatStep e s =
     (case e of
        TypeInput text \<Rightarrow> s\<lparr>userInput := text\<rparr>
      | Submit \<Rightarrow> handleUserMessage s
      | ChatArrive i r \<Rightarrow>
          if i < length (chatPending s)
          then chatArrived (chatPending s ! i) r (s\<lparr>chatPending := removeAt i (chatPending s)\<rparr>)
          else s)"

definition chatRun :: "chatEvent list \<Rightarrow> chat \<Rightarrow> chat" where
  "chatRun es s = fold chatStep es s"


text \<open>The entries that one exchange adds to the history.\<close>

definition exchange :: "string \<times> string \<Rightarrow> chatTurn list" where
  "exchange qa = [\<lparr>role = ''user'', content = fst qa\<rparr>, \<lparr>role = ''ai'', content = snd qa\<rparr>]"

section \<open>Notions of the specification\<close>

definition controlsEnabled :: "ui \<Rightarrow> bool" where
  \<comment> \<open>Neither the "send" nor the "regenerate" control is disabled.\<close>
  "controlsEnabled s = (\<not> sendReplyBtnModalDisabled s \<and> \<not> regenerateDraftBtnModalDisabled s)"

definition detailsAbsent :: "ui \<Rightarrow> bool" where
  \<comment> \<open>No email is selected, or the selected one has no \<open>fullDetails\<close>.\<close>
  "detailsAbsent s =
     (case currentEmailForReply s of None \<Rightarrow> True | Some cur \<Rightarrow> fullDetails cur = None)"

definition detailsFailed :: "emailDetails fetched \<Rightarrow> bool" where
  \<comment> \<open>The details fetch fails: it is rejected, or the status is not a success, or the
      body does not parse, or it parses to \<open>null\<close> or to a falsy value, or the payload
      has a non-empty \<open>error\<close> field.\<close>
  "detailsFailed r =
     (case r of
        Rejected _ \<Rightarrow> True
      | Response st body \<Rightarrow>
          \<not> ok st \<or>
          (case body of
             NotJson _ \<Rightarrow> True
           | Json JsonNull \<Rightarrow> True
           | Json JsonFalsy \<Rightarrow> True
           | Json JsonTruthy \<Rightarrow> False
           | Json (JsonObject d) \<Rightarrow> truthy (d_error d)))"

definition sendSucceeded :: "sendResult fetched \<Rightarrow> bool" where
  \<comment> \<open>The send request succeeds: an OK status and a payload whose \<open>status\<close> is
      \<open>"success"\<close>.\<close>
  "sendSucceeded r =
     (case r of
        Rejected _ \<Rightarrow> False
      | Response st body \<Rightarrow>
          ok st \<and> (case body of Json (JsonObject result) \<Rightarrow> sr_status result = Some ''success''
                     | _ \<Rightarrow> False))"

definition modalFields :: "ui \<Rightarrow> string \<times> string \<times> string \<times> string \<times> string \<times> string" where
  \<comment> \<open>Sender, subject, body, reply-to, reply subject and reply body of the modal.\<close>
  "modalFields s =
     (modalOriginalSender s, modalOriginalSubject s, modalOriginalBody s,
      modalReplyTo s, modalReplySubject s, modalReplyBody s)"



definition detailsErrorShown :: "string \<Rightarrow> ui \<Rightarrow> ui" where
  \<comment> \<open>The state in which a draft-reply flow has ended with this error: the body field
      shows the error text, the modal status area shows it as a danger alert, both
      controls are enabled, and everything else, the requests issued and in flight
      included, is as before.\<close>
  "detailsErrorShown message s =
     s\<lparr>modalReplyBody := ''Error: '' @ message,
       modalStatusMessages :=
         Some \<lparr>b_text = escapeHtmlStr (''Error during drafting process: '' @ message),
               b_type = Danger, b_autoClose = False\<rparr>,
       sendReplyBtnModalDisabled := False,
       regenerateDraftBtnModalDisabled := False\<rparr>"

subsection \<open>Two emails of an inbox, with the backend's answers for them\<close>

definition emailA :: dataset where
  "emailA = \<lparr>ds_platform = ''gmail'', ds_id = ''1'', ds_threadId = ''t1'',
             ds_messageIdHeader = ''<m1@x.com>'', ds_referencesHeader = [],
             ds_inReplyToHeader = []\<rparr>"

definition emailB :: dataset where
  "emailB = \<lparr>ds_platform = ''outlook'', ds_id = ''2'', ds_threadId = [],
             ds_messageIdHeader = ''<m2@y.org>'', ds_referencesHeader = [],
             ds_inReplyToHeader = []\<rparr>"

definition detailsA :: emailDetails where
  "detailsA = \<lparr>d_from = Some ''Alice <alice@x.com>'', d_subject = Some ''Lunch'',
               d_body = Some ''Noon?'', d_in_reply_to_header = None,
               d_references_header = None, d_error = None\<rparr>"


definition detailsOk :: "emailDetails \<Rightarrow> emailDetails fetched" where
  "detailsOk d = Response 200 (Json (JsonObject d))"

definition draftOk :: "string \<Rightarrow> draftData fetched" where
  "draftOk text = Response 200 (Json (JsonObject \<lparr>dr_draft = Some text, dr_error = None\<rparr>))"

definition sendOk :: "sendResult fetched" where
  "sendOk = Response 200 (Json (JsonObject \<lparr>sr_status = Some ''success'', sr_message = None\<rparr>))"

definition chatOk :: "string \<Rightarrow> chatData fetched" where
  "chatOk text =
     Response 200 (Json (JsonObject \<lparr>c_response = Some text, c_sources = [], c_error = None\<rparr>))"

definition craftedEmail :: email where
  \<comment> \<open>An inbox entry whose \<open>id\<close> closes the attribute and the tag it is written into.\<close>
  \<open>craftedEmail =
     \<lparr>e_platform = Some ''gmail'', e_id = Some ''"><img src=x onerror=alert(1)>'',
      e_threadId = None, e_subject = Some ''Hello'', e_from = Some ''Eve <eve@z.net>'',
      e_date = None, e_snippet = None, e_message_id_header = None,
      e_references_header = None, e_in_reply_to_header = None\<rparr>\<close>

definition tenPlusOne :: "(string \<times> string) list" where
  \<comment> \<open>Eleven exchanges, as pairs of a query and the backend's response.\<close>
  "tenPlusOne =
     [(''q1'', ''a1''), (''q2'', ''a2''), (''q3'', ''a3''), (''q4'', ''a4''), (''q5'', ''a5''),
      (''q6'', ''a6''), (''q7'', ''a7''), (''q8'', ''a8''), (''q9'', ''a9''), (''q10'', ''a10''),
      (''q11'', ''a11'')]"

section \<open>Properties of the string functions\<close>

lemma escapeHtml_example:
  "escapeHtml (Some (''<script>&'' @ [CHR 0x22, CHR 0x27]))
     = ''&lt;script&gt;&amp;&quot;&#039;''"
  by (simp add: escapeHtml_def escapeHtmlStr_def replaceAll_def)

lemma of_char_toLowerChar:
  "(of_char (toLowerChar c) :: nat) =
     (let n = of_char c in if (65 \<le> n \<and> n \<le> 90) \<or> (192 \<le> n \<and> n \<le> 222 \<and> n \<noteq> 215) then n + 32 else n)"
  by (auto simp: toLowerChar_def Let_def)
lemma char_eq_iff_nat: "c = d \<longleftrightarrow> (of_char c :: nat) = of_char d"
  by auto
lemma toLowerChar_r: "toLowerChar c = CHR ''r'' \<longleftrightarrow> c = CHR ''r'' \<or> c = CHR ''R''"
  unfolding char_eq_iff_nat [of _ "CHR ''r''"] char_eq_iff_nat [of _ "CHR ''R''"] of_char_toLowerChar
  by (auto simp: Let_def)
lemma toLowerChar_e: "toLowerChar c = CHR ''e'' \<longleftrightarrow> c = CHR ''e'' \<or> c = CHR ''E''"
  unfolding char_eq_iff_nat [of _ "CHR ''e''"] char_eq_iff_nat [of _ "CHR ''E''"] of_char_toLowerChar
  by (auto simp: Let_def)
lemma toLowerChar_colon: "toLowerChar c = CHR '':'' \<longleftrightarrow> c = CHR '':''"
  unfolding char_eq_iff_nat [of _ "CHR '':''"]  of_char_toLowerChar
  by (auto simp: Let_def)

lemma startsWith_lower_re:
  "startsWith (toLowerCase S) ''re:'' = startsWithReIgnoringCase S"
proof (cases S rule: startsWithReIgnoringCase.cases)
  case (1 c1 c2 c3 rest)
  then show ?thesis
    by (simp add: startsWith_def toLowerCase_def toLowerChar_r toLowerChar_e toLowerChar_colon)
qed (auto simp: startsWith_def toLowerCase_def)

text \<open>
  Claim C6. For every subject \<open>S\<close> that does not start with "re:" ignoring case, the
  pre-filled reply subject is \<open>"Re: " + S\<close>; for every \<open>S\<close> that does, it is \<open>S\<close>
  unchanged.
\<close>

theorem replySubject_spec:
  "(\<not> startsWithReIgnoringCase S \<longrightarrow> replySubject (Some S) = ''Re: '' @ S) \<and>
   (startsWithReIgnoringCase S \<longrightarrow> replySubject (Some S) = S)"
proof (cases "S = []")
  case True
  then show ?thesis by (simp add: replySubject_def truthy_def orElse_def)
next
  case False
  then show ?thesis
    by (simp add: replySubject_def truthy_def orElse_def startsWith_lower_re)
qed

theorem replySubject_spec_witness:
  "replySubject (Some ''Meeting'') = ''Re: Meeting'' \<and> replySubject (Some ''rE: Meeting'') = ''rE: Meeting''"
  using replySubject_spec [of "''Meeting''"] replySubject_spec [of "''rE: Meeting''"]
  by simp

lemma matchHere_plus_only:
  "matchHere [Plus1 p] s = (if takeWhile p s = [] then None else Some (takeWhile p s))"
  by (induction s) auto

lemma matchHere_lit_class:
  "p x \<Longrightarrow> \<not> p c \<Longrightarrow> matchHere (Lit c # r) (x # t) = None"
  by auto

lemma matchHere_plus_lit:
  assumes "\<not> p c"
  shows "matchHere (Plus1 p # Lit c # r) s =
     (if takeWhile p s = [] then None
      else (case dropWhile p s of
              [] \<Rightarrow> None
            | y # t \<Rightarrow> if y = c then map_option (\<lambda>m. takeWhile p s @ y # m) (matchHere r t) else None))"
proof (induction s)
  case Nil
  show ?case by simp
next
  case (Cons x t)
  show ?case
  proof (cases "p x")
    case False
    then show ?thesis by simp
  next
    case px: True
    show ?thesis
    proof (cases "takeWhile p t = []")
      case True
      then have inner: "matchHere (Plus1 p # Lit c # r) t = None"
        using Cons.IH by simp
      show ?thesis
      proof (cases t)
        case Nil
        with px show ?thesis by simp
      next
        case (Cons y u)
        with True have npy: "\<not> p y" by (auto split: if_splits)
        with px inner Cons assms show ?thesis
          by (auto simp: option.map_comp comp_def)
      qed
    next
      case False
      then obtain y u where t: "t = y # u" and py: "p y"
        by (cases t) (auto split: if_splits)
      with assms have lit: "matchHere (Lit c # r) t = None" by auto
      have step: "matchHere (Plus1 p # Lit c # r) (x # t) =
          (case matchHere (Plus1 p # Lit c # r) t of Some m \<Rightarrow> Some (x # m) | None \<Rightarrow> None)"
        using px lit by (simp split: option.splits)
      show ?thesis
      proof (cases "dropWhile p t")
        case Nil
        with Cons.IH False step px show ?thesis
          by (simp del: dropWhile_eq_Nil_conv)
      next
        case (Cons z w)
        with Cons.IH False step px show ?thesis
          by (cases "matchHere r w") (simp_all del: dropWhile_eq_Nil_conv)
      qed
    qed
  qed
qed

lemma at_not_addr: "\<not> isAddrChar CHR ''@''"
  by (simp add: isAddrChar_def isWordChar_def)

lemma matchHere_emailRegex: "matchHere emailRegex s = matchEmail s"
proof (cases "dropWhile isAddrChar s")
  case Nil
  then show ?thesis
    unfolding emailRegex_def matchEmail_def
    by (simp add: matchHere_plus_lit [where p = isAddrChar and c = "CHR ''@''", OF at_not_addr]
          del: dropWhile_eq_Nil_conv)
next
  case (Cons y t)
  then show ?thesis
    unfolding emailRegex_def matchEmail_def
    by (simp add: matchHere_plus_lit [where p = isAddrChar and c = "CHR ''@''", OF at_not_addr]
          matchHere_plus_only del: dropWhile_eq_Nil_conv)
qed

lemma emailShaped_iff:
  "emailShaped t \<longleftrightarrow>
     (\<exists>a b. t = a @ CHR ''@'' # b \<and> a \<noteq> [] \<and> b \<noteq> [] \<and> list_all isAddrChar a \<and> list_all isAddrChar b)"
proof
  assume es: "emailShaped t"
  let ?a = "takeWhile (\<lambda>c. c \<noteq> CHR ''@'') t" and ?r = "dropWhile (\<lambda>c. c \<noteq> CHR ''@'') t"
  from es have r: "?r \<noteq> []" by (simp add: emailShaped_def Let_def)
  from hd_dropWhile [OF r] have "hd ?r = CHR ''@''" by simp
  with r have "?r = CHR ''@'' # tl ?r" by (cases ?r) simp_all
  then have "t = ?a @ CHR ''@'' # tl ?r" by (metis takeWhile_dropWhile_id)
  with es show "\<exists>a b. t = a @ CHR ''@'' # b \<and> a \<noteq> [] \<and> b \<noteq> [] \<and> list_all isAddrChar a \<and> list_all isAddrChar b"
    unfolding emailShaped_def Let_def by blast
next
  assume "\<exists>a b. t = a @ CHR ''@'' # b \<and> a \<noteq> [] \<and> b \<noteq> [] \<and> list_all isAddrChar a \<and> list_all isAddrChar b"
  then obtain a b where t: "t = a @ CHR ''@'' # b" and ne: "a \<noteq> []" "b \<noteq> []"
    and cls: "list_all isAddrChar a" "list_all isAddrChar b" by blast
  from cls(1) have noat: "\<forall>c\<in>set a. c \<noteq> CHR ''@''"
    using at_not_addr by (auto simp: list_all_iff)
  then have "takeWhile (\<lambda>c. c \<noteq> CHR ''@'') t = a" "dropWhile (\<lambda>c. c \<noteq> CHR ''@'') t = CHR ''@'' # b"
    unfolding t by (simp_all add: takeWhile_append2 dropWhile_append2)
  with ne cls show "emailShaped t" by (simp add: emailShaped_def)
qed

lemma matchEmail_Some:
  assumes "matchEmail s = Some m"
  shows "emailShaped m \<and> (\<exists>post. s = m @ post)"
proof -
  let ?a = "takeWhile isAddrChar s"
  from assms obtain t where a: "?a \<noteq> []" and d: "dropWhile isAddrChar s = CHR ''@'' # t"
    and b: "takeWhile isAddrChar t \<noteq> []" and m: "m = ?a @ CHR ''@'' # takeWhile isAddrChar t"
    by (auto simp: matchEmail_def Let_def split: list.splits if_splits)
  have "s = ?a @ dropWhile isAddrChar s" by simp
  also have "\<dots> = ?a @ CHR ''@'' # (takeWhile isAddrChar t @ dropWhile isAddrChar t)"
    using d by simp
  finally have "s = m @ dropWhile isAddrChar t" using m by simp
  moreover have "emailShaped m"
    unfolding emailShaped_iff using a b m
    by (intro exI [of _ ?a] exI [of _ "takeWhile isAddrChar t"])
       (auto simp: list_all_iff dest: set_takeWhileD)
  ultimately show ?thesis by blast
qed

lemma matchEmail_token:
  assumes "emailShaped t"
  shows "\<exists>m. matchEmail (t @ post) = Some m \<and> length t \<le> length m"
proof -
  from assms obtain a b where t: "t = a @ CHR ''@'' # b" and ne: "a \<noteq> []" "b \<noteq> []"
    and cls: "list_all isAddrChar a" "list_all isAddrChar b"
    unfolding emailShaped_iff by blast
  have tw: "takeWhile isAddrChar (t @ post) = a"
    unfolding t using cls(1) at_not_addr by (simp add: takeWhile_append2 list_all_iff)
  have dw: "dropWhile isAddrChar (t @ post) = CHR ''@'' # (b @ post)"
    unfolding t using cls(1) at_not_addr by (simp add: dropWhile_append2 list_all_iff)
  have tb: "takeWhile isAddrChar (b @ post) = b @ takeWhile isAddrChar post"
    using cls(2) by (simp add: takeWhile_append2 list_all_iff)
  show ?thesis
    using tw dw tb ne by (simp add: matchEmail_def t)
qed

lemma regexMatch_Some:
  "regexMatch re s = Some m \<Longrightarrow>
     \<exists>pre post. s = pre @ post \<and> matchHere re post = Some m \<and>
       (\<forall>k<length pre. matchHere re (drop k s) = None)"
proof (induction s)
  case Nil
  then show ?case by simp
next
  case (Cons x t)
  show ?case
  proof (cases "matchHere re (x # t)")
    case (Some m')
    with Cons.prems have "matchHere re (x # t) = Some m" by simp
    then show ?thesis by (intro exI [of _ "[]"] exI [of _ "x # t"]) simp
  next
    case None
    with Cons.prems have "regexMatch re t = Some m" by simp
    from Cons.IH [OF this] obtain pre post where
      t: "t = pre @ post" and mh: "matchHere re post = Some m"
      and fl: "\<forall>k<length pre. matchHere re (drop k t) = None" by blast
    have "\<forall>k<length (x # pre). matchHere re (drop k (x # t)) = None"
    proof (intro allI impI)
      fix k assume "k < length (x # pre)"
      then show "matchHere re (drop k (x # t)) = None"
        using None fl by (cases k) auto
    qed
    with t mh show ?thesis
      by (intro exI [of _ "x # pre"] exI [of _ post]) simp
  qed
qed

lemma regexMatch_None:
  "regexMatch re s = None \<Longrightarrow> k \<le> length s \<Longrightarrow> matchHere re (drop k s) = None"
proof (induction s arbitrary: k)
  case Nil
  then show ?case by simp
next
  case (Cons x t)
  then show ?case by (cases k) (auto split: option.splits)
qed

lemma extractEmailAddress_general:
  "((\<exists>pre t post. s = pre @ t @ post \<and> emailShaped t) \<longrightarrow>
      (\<exists>pre post. s = pre @ extractEmailAddress (Some s) @ post \<and>
         emailShaped (extractEmailAddress (Some s)) \<and>
         (\<forall>pre' t' post'. s = pre' @ t' @ post' \<and> emailShaped t' \<longrightarrow>
            length pre < length pre' \<or>
            (length pre = length pre' \<and> length t' \<le> length (extractEmailAddress (Some s)))))) \<and>
   (\<not> (\<exists>pre t post. s = pre @ t @ post \<and> emailShaped t) \<longrightarrow>
      extractEmailAddress (Some s) = s)"
proof (cases "regexMatch emailRegex s")
  case None
  have nt: "\<not> (\<exists>pre t post. s = pre @ t @ post \<and> emailShaped t)"
  proof
    assume "\<exists>pre t post. s = pre @ t @ post \<and> emailShaped t"
    then obtain pre t post where s: "s = pre @ t @ post" and tok: "emailShaped t" by blast
    from matchEmail_token [OF tok, of post] have "matchHere emailRegex (drop (length pre) s) \<noteq> None"
      by (auto simp: s matchHere_emailRegex)
    moreover have "matchHere emailRegex (drop (length pre) s) = None"
      by (rule regexMatch_None [OF None]) (simp add: s)
    ultimately show False by simp
  qed
  have eq: "extractEmailAddress (Some s) = s"
    using None by (simp add: extractEmailAddress_def)
  show ?thesis
  proof (intro conjI impI)
    assume "\<exists>pre t post. s = pre @ t @ post \<and> emailShaped t"
    with nt show "\<exists>pre post. s = pre @ extractEmailAddress (Some s) @ post \<and>
         emailShaped (extractEmailAddress (Some s)) \<and>
         (\<forall>pre' t' post'. s = pre' @ t' @ post' \<and> emailShaped t' \<longrightarrow>
            length pre < length pre' \<or>
            (length pre = length pre' \<and> length t' \<le> length (extractEmailAddress (Some s))))"
      by (rule notE)
  next
    show "extractEmailAddress (Some s) = s" by (rule eq)
  qed
next
  case (Some m)
  from regexMatch_Some [OF Some] obtain pre rest where
    s: "s = pre @ rest" and mh: "matchEmail rest = Some m"
    and fl: "\<forall>k<length pre. matchEmail (drop k s) = None"
    by (auto simp: matchHere_emailRegex)
  from matchEmail_Some [OF mh] obtain post where shaped: "emailShaped m" and rest: "rest = m @ post"
    by blast
  from shaped have "m \<noteq> []" by (auto simp: emailShaped_iff)
  with s rest have "s \<noteq> []" by simp
  with Some have ex: "extractEmailAddress (Some s) = m"
    by (simp add: extractEmailAddress_def)
  have first: "length pre < length pre' \<or> (length pre = length pre' \<and> length t' \<le> length m)"
    if "s = pre' @ t' @ post'" "emailShaped t'" for pre' t' post'
  proof -
    have "drop (length pre') s = t' @ post'" using that(1) by simp
    with matchEmail_token [OF that(2), of post'] obtain m' where
      m': "matchEmail (drop (length pre') s) = Some m'" and len: "length t' \<le> length m'"
      by auto
    have ge: "length pre \<le> length pre'"
    proof (rule ccontr)
      assume "\<not> length pre \<le> length pre'"
      then have "matchEmail (drop (length pre') s) = None" using fl by simp
      with m' show False by simp
    qed
    show ?thesis
    proof (cases "length pre = length pre'")
      case True
      then have "drop (length pre') s = rest" by (simp add: s)
      with m' mh len show ?thesis using True by simp
    next
      case False
      with ge show ?thesis by simp
    qed
  qed
  have dec: "s = pre @ m @ post" using s rest by simp
  have least: "\<forall>pre' t' post'. s = pre' @ t' @ post' \<and> emailShaped t' \<longrightarrow>
            length pre < length pre' \<or> (length pre = length pre' \<and> length t' \<le> length m)"
  proof (intro allI impI)
    fix pre' t' post'
    assume "s = pre' @ t' @ post' \<and> emailShaped t'"
    then show "length pre < length pre' \<or> (length pre = length pre' \<and> length t' \<le> length m)"
      using first [of pre' t' post'] by simp
  qed
  show ?thesis
  proof (intro conjI impI)
    show "\<exists>pre post. s = pre @ extractEmailAddress (Some s) @ post \<and>
         emailShaped (extractEmailAddress (Some s)) \<and>
         (\<forall>pre' t' post'. s = pre' @ t' @ post' \<and> emailShaped t' \<longrightarrow>
            length pre < length pre' \<or>
            (length pre = length pre' \<and> length t' \<le> length (extractEmailAddress (Some s))))"
      unfolding ex
      by (rule exI [of _ pre], rule exI [of _ post]) (intro conjI dec shaped least)
  next
    assume "\<not> (\<exists>pre t post. s = pre @ t @ post \<and> emailShaped t)"
    moreover from dec shaped have "\<exists>pre t post. s = pre @ t @ post \<and> emailShaped t"
      by (intro exI [of _ pre] exI [of _ m] exI [of _ post] conjI)
    ultimately show "extractEmailAddress (Some s) = s" by (rule notE)
  qed
qed

lemma emailShaped_has_at: "emailShaped t \<Longrightarrow> CHR ''@'' \<in> set t"
  by (auto simp: emailShaped_iff)

lemma extractEmailAddress_examples:
  "extractEmailAddress (Some ''John Doe <john@x.com>'') = ''john@x.com''"
  "extractEmailAddress (Some ''not-an-email'') = ''not-an-email''"
  by (simp_all add: extractEmailAddress_def emailRegex_def isAddrChar_def isWordChar_def)

text \<open>
  Claim C7. When the argument contains an email-address-shaped token,
  \<open>extractEmailAddress\<close> returns such a token of the argument, the one that starts
  first (and, among those starting there, the longest); when it contains none, the
  argument is returned unchanged. So \<open>"John Doe <john@x.com>"\<close> gives \<open>"john@x.com"\<close>
  and \<open>"not-an-email"\<close> gives \<open>"not-an-email"\<close>.
\<close>

theorem extractEmailAddress_spec:
  "((\<exists>pre t post. s = pre @ t @ post \<and> emailShaped t) \<longrightarrow>
      (\<exists>pre post. s = pre @ extractEmailAddress (Some s) @ post \<and>
         emailShaped (extractEmailAddress (Some s)) \<and>
         (\<forall>pre' t' post'. s = pre' @ t' @ post' \<and> emailShaped t' \<longrightarrow>
            length pre < length pre' \<or>
            (length pre = length pre' \<and> length t' \<le> length (extractEmailAddress (Some s)))))) \<and>
   (\<not> (\<exists>pre t post. s = pre @ t @ post \<and> emailShaped t) \<longrightarrow>
      extractEmailAddress (Some s) = s) \<and>
   extractEmailAddress (Some ''John Doe <john@x.com>'') = ''john@x.com'' \<and>
   extractEmailAddress (Some ''not-an-email'') = ''not-an-email''"
  using extractEmailAddress_general [of s] extractEmailAddress_examples by simp

theorem extractEmailAddress_spec_witness:
  "emailShaped (extractEmailAddress (Some ''John Doe <john@x.com>'')) \<and>
   extractEmailAddress (Some ''a, b'') = ''a, b''"
proof -
  have tok: "emailShaped ''john@x.com''"
    by (simp add: emailShaped_def isAddrChar_def isWordChar_def)
  have "''John Doe <john@x.com>'' = ''John Doe <'' @ ''john@x.com'' @ ''>''" by simp
  with tok have yes: "\<exists>pre t post. ''John Doe <john@x.com>'' = pre @ t @ post \<and> emailShaped t"
    by blast
  have no: "\<not> (\<exists>pre t post. ''a, b'' = pre @ t @ post \<and> emailShaped t)"
  proof
    assume "\<exists>pre t post. ''a, b'' = pre @ t @ post \<and> emailShaped t"
    then obtain pre t post where d: "''a, b'' = pre @ t @ post" and es: "emailShaped t" by blast
    from es have "CHR ''@'' \<in> set t" by (rule emailShaped_has_at)
    then have "CHR ''@'' \<in> set (pre @ t @ post)" by simp
    then have "CHR ''@'' \<in> set ''a, b''" unfolding d [symmetric] .
    then show False by simp
  qed
  from yes no extractEmailAddress_spec [of "''John Doe <john@x.com>''"]
    extractEmailAddress_spec [of "''a, b''"]
  show ?thesis by blast
qed

section \<open>The reply workflow\<close>

lemma detailsFailed_iff: "detailsFailed r \<longleftrightarrow> (\<exists>m. detailsChecked r = Inl m)"
  by (auto simp: detailsFailed_def detailsChecked_def properties_def jsTruthy_def
      noDetails_def truthy_def
      split: fetched.splits jsonBody.splits jsonValue.splits)

lemma detailsChecked_object:
  "ok st \<Longrightarrow> \<not> truthy (d_error d) \<Longrightarrow> detailsChecked (Response st (Json (JsonObject d))) = Inr d"
  by (simp add: detailsChecked_def properties_def jsTruthy_def)

lemma detailsChecked_truthy:
  "ok st \<Longrightarrow> detailsChecked (Response st (Json JsonTruthy)) = Inr noDetails"
  by (simp add: detailsChecked_def properties_def jsTruthy_def noDetails_def truthy_def)

lemma controls_enableControls: "controlsEnabled (enableControls s)"
  by (simp add: controlsEnabled_def enableControls_def)

lemma draftArrived_enabled: "controlsEnabled (draftArrived r s)"
  by (simp add: draftArrived_def controls_enableControls)

lemma regenerateArrived_enabled: "controlsEnabled (regenerateArrived r s)"
  by (simp add: regenerateArrived_def controls_enableControls)

lemma detailsArrived_failed_enabled:
  "detailsFailed r \<Longrightarrow> controlsEnabled (detailsArrived r s)"
  by (auto simp: detailsFailed_iff detailsArrived_def controls_enableControls)

lemma sendArrived_failed_enabled:
  "\<not> sendSucceeded r \<Longrightarrow> controlsEnabled (sendArrived r s)"
  by (auto simp: sendSucceeded_def sendArrived_def sendCatch_def controls_enableControls
      properties_def noSendResult_def
      split: fetched.splits jsonBody.splits jsonValue.splits option.splits)

lemma sendArrived_succeeded:
  assumes "sendSucceeded r" "currentEmailForReply s = Some cur"
  shows "sendReplyBtnModalDisabled (sendArrived r s) = sendReplyBtnModalDisabled s"
    "regenerateDraftBtnModalDisabled (sendArrived r s) = regenerateDraftBtnModalDisabled s"
    "modalHideTimers (sendArrived r s) = Suc (modalHideTimers s)"
    "network (sendArrived r s) = network s @ [GetEmails]"
  using assms
  by (auto simp: sendSucceeded_def sendArrived_def fetchAndDisplayEmails_def fetch_def
      displayModalStatus_def displayGlobalStatus_def properties_def
      split: fetched.splits jsonBody.splits jsonValue.splits option.splits)


















text \<open>
  The second flow has to succeed for the modal to show the second email: when its
  details fetch fails after the details of the first flow have been written, these
  stay in the modal beside the error of the second flow, also with the responses
  processed in the order of the clicks.
\<close>

lemma first_details_outlast_failed_second_flow:
  "modalFields
     (run [ClickDraftReply emailA, ClickDraftReply emailB,
           Arrive 0 (DetailsAnswer (detailsOk detailsA)),
           Arrive (Suc 0) (DraftAnswer (draftOk ''Sure, noon.'')),
           Arrive 0 (DetailsAnswer (Rejected ''Failed to fetch''))] initialUi)
     = (''Alice &lt;alice@x.com&gt;'', ''Lunch'', ''Noon?'', ''alice@x.com'', ''Re: Lunch'',
        ''Error: Failed to fetch'')"
  by code_simp

text \<open>
  Claim C2. The claim says that every outcome of every network call of the reply
  workflow re-enables the "send" and "regenerate" controls. This holds for the details
  fetch when it fails (when it succeeds the handler goes on to the draft request), for
  every outcome of the draft request and of the regenerate request, and for every
  outcome of the send request but success. After a successful send the handler leaves
  both controls as they are, that is disabled, and sets the timer that hides the modal.
\<close>

theorem controls_reenabled_unless_sent:
  "(detailsFailed r \<longrightarrow> controlsEnabled (detailsArrived r s)) \<and>
   controlsEnabled (draftArrived rd s) \<and>
   controlsEnabled (regenerateArrived rd s) \<and>
   (\<not> sendSucceeded rs \<longrightarrow> controlsEnabled (sendArrived rs s)) \<and>
   (sendSucceeded rs \<and> currentEmailForReply s \<noteq> None \<longrightarrow>
      sendReplyBtnModalDisabled (sendArrived rs s) = sendReplyBtnModalDisabled s \<and>
      regenerateDraftBtnModalDisabled (sendArrived rs s) = regenerateDraftBtnModalDisabled s \<and>
      modalHideTimers (sendArrived rs s) = Suc (modalHideTimers s))"
  using detailsArrived_failed_enabled [of r s] draftArrived_enabled [of rd s]
    regenerateArrived_enabled [of rd s] sendArrived_failed_enabled [of rs s]
    sendArrived_succeeded(1,2,3) [of rs s]
  by auto

theorem controls_reenabled_unless_sent_witness:
  "controlsEnabled (detailsArrived (Rejected ''Failed to fetch'') (clickEmailList (Some emailA) initialUi)) \<and>
   controlsEnabled (sendArrived (Rejected ''Failed to fetch'') (clickEmailList (Some emailA) initialUi)) \<and>
   sendReplyBtnModalDisabled (sendArrived sendOk (clickEmailList (Some emailA) initialUi))"
proof -
  let ?s = "clickEmailList (Some emailA) initialUi"
  have h1: "detailsFailed (Rejected ''Failed to fetch'')" by (simp add: detailsFailed_def)
  have h2: "\<not> sendSucceeded (Rejected ''Failed to fetch'')" by (simp add: sendSucceeded_def)
  have h3: "sendSucceeded sendOk" by (simp add: sendSucceeded_def sendOk_def ok_def)
  have h4: "currentEmailForReply ?s \<noteq> None" by code_simp
  have h5: "sendReplyBtnModalDisabled ?s" by code_simp
  from h1 h2 have a: "controlsEnabled (detailsArrived (Rejected ''Failed to fetch'') ?s)
      \<and> controlsEnabled (sendArrived (Rejected ''Failed to fetch'') ?s)"
    using controls_reenabled_unless_sent
      [of "Rejected ''Failed to fetch''" ?s "Rejected []" "Rejected ''Failed to fetch''"]
    by blast
  from h3 h4 h5 have b: "sendReplyBtnModalDisabled (sendArrived sendOk ?s)"
    using controls_reenabled_unless_sent [of "Rejected []" ?s "Rejected []" sendOk]
    by blast
  from a b show ?thesis by blast
qed

text \<open>
  The claim as stated fails on this run: a draft is loaded for \<open>emailA\<close>, the
  user clicks "send", and the backend answers with success. The handler has ended and
  both controls are still disabled.
\<close>

theorem successful_send_leaves_controls_disabled:
  "\<not> controlsEnabled
       (run [ClickDraftReply emailA, Arrive 0 (DetailsAnswer (detailsOk detailsA)),
             Arrive 0 (DraftAnswer (draftOk ''Sure, noon.'')), ClickSend, Arrive 0 (SendAnswer sendOk)]
          initialUi)"
  by code_simp

lemma detailsArrived_error:
  "detailsChecked r = Inl m \<Longrightarrow> detailsArrived r s = detailsErrorShown m s"
  by (simp add: detailsArrived_def detailsErrorShown_def enableControls_def draftCatch_def
      displayModalStatus_def)

lemma detailsArrived_success:
  assumes "detailsChecked r = Inr d" "currentEmailForReply s = Some cur"
  shows "detailsArrived r s =
     s\<lparr>currentEmailForReply := Some (cur\<lparr>fullDetails := Some d\<rparr>),
       modalOriginalSender := escapeHtml (d_from d),
       modalOriginalSubject := escapeHtml (d_subject d),
       modalOriginalBody := escapeHtml (d_body d),
       modalReplyTo := extractEmailAddress (d_from d),
       modalReplySubject := replySubject (d_subject d),
       network := network s @ [PostDraftAiReply (platform cur) USER_NAME_FOR_PROMPT
                                 (d_from d) (d_subject d) (d_body d)],
       pending := pending s @ [(PostDraftAiReply (platform cur) USER_NAME_FOR_PROMPT
                                 (d_from d) (d_subject d) (d_body d), AwaitDraft)]\<rparr>"
  using assms by (simp add: detailsArrived_def fetch_def)

text \<open>
  Claim C4. At the click only the details request is issued. The draft request is
  issued by the continuation that processes the answer to the details request, and
  only when that answer is a success. When the details fetch fails with a status that
  is not a success, or with a payload whose \<open>error\<close> field is not empty, no request
  is issued, the modal status area shows the error as a danger alert and the body
  field shows the error text: the status and the \<open>error\<close> field of the payload in the
  first case, the \<open>error\<close> field in the second. The claim counts every payload with
  an \<open>error\<close> field as a failure; the handler tests the field for truthiness, so a
  payload whose \<open>error\<close> field is the empty string is a success, and the draft
  request is issued. The theorem covers every response: a rejected fetch, a body that
  does not parse, and a body that is \<open>null\<close> or a falsy value fail in the same way,
  each with the error text given below; a body that is a truthy value other than an
  object is a success in which every field is \<open>undefined\<close>.
\<close>

theorem draft_request_follows_details:
  "network (clickEmailList (Some b) s) = network s @ [GetEmailDetails (ds_platform b) (ds_id b)] \<and>
   pending (clickEmailList (Some b) s)
     = pending s @ [(GetEmailDetails (ds_platform b) (ds_id b), AwaitDetails)] \<and>
   (detailsFailed r \<longrightarrow>
      network (detailsArrived r s) = network s \<and> pending (detailsArrived r s) = pending s) \<and>
   (\<not> ok st \<longrightarrow>
      detailsArrived (Response st (Json (JsonObject p))) s
        = detailsErrorShown
            (''Could not fetch details: '' @ showNat st @ '' - '' @ tmpl (d_error p)) s \<and>
      detailsArrived (Response st (NotJson x)) s
        = detailsErrorShown
            (''Could not fetch details: '' @ showNat st
               @ '' - Error fetching email details from server.'') s \<and>
      detailsArrived (Response st (Json JsonFalsy)) s
        = detailsErrorShown (''Could not fetch details: '' @ showNat st @ '' - undefined'') s \<and>
      detailsArrived (Response st (Json JsonTruthy)) s
        = detailsErrorShown (''Could not fetch details: '' @ showNat st @ '' - undefined'') s) \<and>
   (ok st \<and> d_error p = Some e \<and> e \<noteq> [] \<longrightarrow>
      detailsArrived (Response st (Json (JsonObject p))) s = detailsErrorShown e s) \<and>
   (ok st \<longrightarrow>
      detailsArrived (Response st (NotJson x)) s = detailsErrorShown x s \<and>
      detailsArrived (Response st (Json JsonFalsy)) s
        = detailsErrorShown
            ''Email details response from backend was empty or contained an error.'' s) \<and>
   detailsArrived (Response st (Json JsonNull)) s = detailsErrorShown (nullRead ''error'') s \<and>
   detailsArrived (Rejected x) s = detailsErrorShown x s \<and>
   (ok st \<and> \<not> truthy (d_error d) \<and> currentEmailForReply s = Some cur \<longrightarrow>
      network (detailsArrived (Response st (Json (JsonObject d))) s)
        = network s @ [PostDraftAiReply (platform cur) USER_NAME_FOR_PROMPT
                         (d_from d) (d_subject d) (d_body d)] \<and>
      pending (detailsArrived (Response st (Json (JsonObject d))) s)
        = pending s @ [(PostDraftAiReply (platform cur) USER_NAME_FOR_PROMPT
                         (d_from d) (d_subject d) (d_body d), AwaitDraft)]) \<and>
   (ok st \<and> currentEmailForReply s = Some cur \<longrightarrow>
      network (detailsArrived (Response st (Json JsonTruthy)) s)
        = network s @ [PostDraftAiReply (platform cur) USER_NAME_FOR_PROMPT None None None] \<and>
      pending (detailsArrived (Response st (Json JsonTruthy)) s)
        = pending s @ [(PostDraftAiReply (platform cur) USER_NAME_FOR_PROMPT None None None,
                        AwaitDraft)])"
proof -
  have click: "network (clickEmailList (Some b) s) = network s @ [GetEmailDetails (ds_platform b) (ds_id b)]"
    "pending (clickEmailList (Some b) s)
       = pending s @ [(GetEmailDetails (ds_platform b) (ds_id b), AwaitDetails)]"
    by (simp_all add: clickEmailList_def fetch_def disableControls_def displayModalStatus_def)
  have failed: "network (detailsArrived r s) = network s \<and> pending (detailsArrived r s) = pending s"
    if "detailsFailed r"
  proof -
    from that obtain m where "detailsChecked r = Inl m" by (auto simp: detailsFailed_iff)
    then show ?thesis by (simp add: detailsArrived_error detailsErrorShown_def)
  qed
  have notok: "detailsArrived (Response st (Json (JsonObject p))) s
        = detailsErrorShown
            (''Could not fetch details: '' @ showNat st @ '' - '' @ tmpl (d_error p)) s \<and>
      detailsArrived (Response st (NotJson x)) s
        = detailsErrorShown
            (''Could not fetch details: '' @ showNat st
               @ '' - Error fetching email details from server.'') s \<and>
      detailsArrived (Response st (Json JsonFalsy)) s
        = detailsErrorShown (''Could not fetch details: '' @ showNat st @ '' - undefined'') s \<and>
      detailsArrived (Response st (Json JsonTruthy)) s
        = detailsErrorShown (''Could not fetch details: '' @ showNat st @ '' - undefined'') s"
    if "\<not> ok st"
    using that
    by (simp add: detailsArrived_def detailsChecked_def properties_def noDetails_def tmpl_def
        detailsErrorShown_def enableControls_def draftCatch_def displayModalStatus_def)
  have err: "detailsArrived (Response st (Json (JsonObject p))) s = detailsErrorShown e s"
    if "ok st \<and> d_error p = Some e \<and> e \<noteq> []"
    using that
    by (simp add: detailsArrived_def detailsChecked_def properties_def truthy_def orElse_def
        detailsErrorShown_def enableControls_def draftCatch_def displayModalStatus_def)
  have okfail: "detailsArrived (Response st (NotJson x)) s = detailsErrorShown x s \<and>
      detailsArrived (Response st (Json JsonFalsy)) s
        = detailsErrorShown
            ''Email details response from backend was empty or contained an error.'' s"
    if "ok st"
    using that
    by (simp add: detailsArrived_def detailsChecked_def properties_def noDetails_def jsTruthy_def
        orElse_def detailsErrorShown_def enableControls_def draftCatch_def displayModalStatus_def)
  have null: "detailsArrived (Response st (Json JsonNull)) s = detailsErrorShown (nullRead ''error'') s"
    by (rule detailsArrived_error) (simp add: detailsChecked_def properties_def)
  have rej: "detailsArrived (Rejected x) s = detailsErrorShown x s"
    by (rule detailsArrived_error) (simp add: detailsChecked_def)
  have obj: "network (detailsArrived (Response st (Json (JsonObject d))) s)
        = network s @ [PostDraftAiReply (platform cur) USER_NAME_FOR_PROMPT
                         (d_from d) (d_subject d) (d_body d)] \<and>
      pending (detailsArrived (Response st (Json (JsonObject d))) s)
        = pending s @ [(PostDraftAiReply (platform cur) USER_NAME_FOR_PROMPT
                         (d_from d) (d_subject d) (d_body d), AwaitDraft)]"
    if "ok st \<and> \<not> truthy (d_error d) \<and> currentEmailForReply s = Some cur"
    using that by (simp add: detailsArrived_success [OF detailsChecked_object])
  have tru: "network (detailsArrived (Response st (Json JsonTruthy)) s)
        = network s @ [PostDraftAiReply (platform cur) USER_NAME_FOR_PROMPT None None None] \<and>
      pending (detailsArrived (Response st (Json JsonTruthy)) s)
        = pending s @ [(PostDraftAiReply (platform cur) USER_NAME_FOR_PROMPT None None None,
                        AwaitDraft)]"
    if "ok st \<and> currentEmailForReply s = Some cur"
    using that by (simp add: detailsArrived_success [OF detailsChecked_truthy] noDetails_def)
  from click failed notok err okfail null rej obj tru show ?thesis by blast
qed

theorem draft_request_follows_details_witness:
  "network (detailsArrived (Response 500 (NotJson ''<html>''))
             (clickEmailList (Some emailA) initialUi)) = [GetEmailDetails ''gmail'' ''1''] \<and>
   modalReplyBody (detailsArrived (Response 404 (Json (JsonObject (noDetails\<lparr>d_error := Some ''No such message''\<rparr>))))
                    (clickEmailList (Some emailA) initialUi))
     = ''Error: Could not fetch details: 404 - No such message'' \<and>
   modalReplyBody (detailsArrived (Response 200 (Json (JsonObject (noDetails\<lparr>d_error := Some ''Mailbox busy''\<rparr>))))
                    (clickEmailList (Some emailA) initialUi))
     = ''Error: Mailbox busy'' \<and>
   modalReplyBody (detailsArrived (Response 200 (NotJson ''Unexpected token''))
                    (clickEmailList (Some emailA) initialUi))
     = ''Error: Unexpected token'' \<and>
   network (detailsArrived (detailsOk detailsA) (clickEmailList (Some emailA) initialUi))
     = [GetEmailDetails ''gmail'' ''1'',
        PostDraftAiReply ''gmail'' ''Khurram'' (Some ''Alice <alice@x.com>'') (Some ''Lunch'') (Some ''Noon?'')] \<and>
   network (detailsArrived (Response 200 (Json JsonTruthy)) (clickEmailList (Some emailA) initialUi))
     = [GetEmailDetails ''gmail'' ''1'', PostDraftAiReply ''gmail'' ''Khurram'' None None None]"
proof -
  let ?s = "clickEmailList (Some emailA) initialUi"
  let ?cur = "\<lparr>platform = ''gmail'', emailId = ''1'', threadId = ''t1'',
      messageIdHeader = ''<m1@x.com>'', referencesHeader = [], inReplyToHeader = [],
      fullDetails = None\<rparr>"
  have n: "network ?s = [GetEmailDetails ''gmail'' ''1'']" by code_simp
  have c: "currentEmailForReply ?s = Some ?cur" by code_simp
  have f: "detailsFailed (Response 500 (NotJson ''<html>''))" by code_simp
  have o4: "\<not> ok 404" by (simp add: ok_def)
  have o2: "ok 200" by (simp add: ok_def)
  have e: "d_error (noDetails\<lparr>d_error := Some ''Mailbox busy''\<rparr>) = Some ''Mailbox busy''" by simp
  have t: "\<not> truthy (d_error detailsA)" by code_simp
  have s4: "showNat 404 = ''404''" by code_simp
  from f n draft_request_follows_details [where r = "Response 500 (NotJson ''<html>'')" and s = ?s]
  have 1: "network (detailsArrived (Response 500 (NotJson ''<html>'')) ?s) = [GetEmailDetails ''gmail'' ''1'']"
    by simp
  from o4 s4 draft_request_follows_details
    [where st = 404 and s = ?s and p = "noDetails\<lparr>d_error := Some ''No such message''\<rparr>"]
  have 2: "modalReplyBody (detailsArrived (Response 404 (Json (JsonObject (noDetails\<lparr>d_error := Some ''No such message''\<rparr>)))) ?s)
     = ''Error: Could not fetch details: 404 - No such message''"
    by (simp add: detailsErrorShown_def tmpl_def)
  from o2 e draft_request_follows_details
    [where st = 200 and s = ?s and p = "noDetails\<lparr>d_error := Some ''Mailbox busy''\<rparr>"
       and e = "''Mailbox busy''" and x = "''Unexpected token''" and d = detailsA and cur = ?cur]
    t c n
  have 3: "modalReplyBody (detailsArrived (Response 200 (Json (JsonObject (noDetails\<lparr>d_error := Some ''Mailbox busy''\<rparr>)))) ?s)
     = ''Error: Mailbox busy'' \<and>
   modalReplyBody (detailsArrived (Response 200 (NotJson ''Unexpected token'')) ?s)
     = ''Error: Unexpected token'' \<and>
   network (detailsArrived (detailsOk detailsA) ?s)
     = [GetEmailDetails ''gmail'' ''1'',
        PostDraftAiReply ''gmail'' ''Khurram'' (Some ''Alice <alice@x.com>'') (Some ''Lunch'') (Some ''Noon?'')] \<and>
   network (detailsArrived (Response 200 (Json JsonTruthy)) ?s)
     = [GetEmailDetails ''gmail'' ''1'', PostDraftAiReply ''gmail'' ''Khurram'' None None None]"
    by (simp add: detailsErrorShown_def detailsOk_def detailsA_def USER_NAME_FOR_PROMPT_def)
  from 1 2 3 show ?thesis by blast
qed

text \<open>
  The claim as stated fails on this input: the details payload of \<open>emailA\<close> with
  an \<open>error\<close> field that is the empty string. The payload has an error field, and
  the draft request is issued.
\<close>

theorem empty_error_field_goes_on_to_draft:
  "d_error (detailsA\<lparr>d_error := Some []\<rparr>) \<noteq> None \<and>
   network (run [ClickDraftReply emailA,
                 Arrive 0 (DetailsAnswer (detailsOk (detailsA\<lparr>d_error := Some []\<rparr>)))] initialUi)
     = [GetEmailDetails ''gmail'' ''1'',
        PostDraftAiReply ''gmail'' ''Khurram'' (Some ''Alice <alice@x.com>'') (Some ''Lunch'') (Some ''Noon?'')]"
  by code_simp

lemma escape_plain:
  "escapeHtmlStr ''To, Subject, and Body are required to send.'' = ''To, Subject, and Body are required to send.''"
  "escapeHtmlStr ''Error: No email context for sending reply.'' = ''Error: No email context for sending reply.''"
  "escapeHtmlStr ''Original email data not available to regenerate draft. Please close and retry.''
     = ''Original email data not available to regenerate draft. Please close and retry.''"
  by (simp_all add: escapeHtmlStr_def replaceAll_def)

text \<open>
  Claim C5. The claim says that in every state with an empty reply-to, subject or
  body (after trimming) a click on "send" displays a warning, issues no network call
  and changes nothing but the status banner. The handler first checks that an email
  with loaded details is selected. With loaded details, the claim holds as stated: the
  state after the click is the state before it with the warning in the modal status
  area. Without them, the click shows the error "No email context for sending reply"
  as a danger alert instead of the warning, again with no network call and no other
  change.
\<close>

theorem send_validation:
  "(\<not> detailsAbsent s \<and>
    (trim (modalReplyTo s) = [] \<or> trim (modalReplySubject s) = [] \<or> trim (modalReplyBody s) = [])
      \<longrightarrow> clickSend s =
            s\<lparr>modalStatusMessages :=
                 Some \<lparr>b_text = ''To, Subject, and Body are required to send.'',
                       b_type = Warning, b_autoClose = False\<rparr>\<rparr>) \<and>
   (detailsAbsent s
      \<longrightarrow> clickSend s =
            s\<lparr>modalStatusMessages :=
                 Some \<lparr>b_text = ''Error: No email context for sending reply.'',
                       b_type = Danger, b_autoClose = False\<rparr>\<rparr>)"
  by (auto simp: detailsAbsent_def clickSend_def displayModalStatus_def Let_def escape_plain
      split: option.splits)

theorem send_validation_witness:
  "clickSend ((detailsArrived (detailsOk detailsA) (clickEmailList (Some emailA) initialUi))
               \<lparr>modalReplyBody := ''  ''\<rparr>)
     = (detailsArrived (detailsOk detailsA) (clickEmailList (Some emailA) initialUi))
         \<lparr>modalReplyBody := ''  '',
          modalStatusMessages :=
            Some \<lparr>b_text = ''To, Subject, and Body are required to send.'',
                  b_type = Warning, b_autoClose = False\<rparr>\<rparr> \<and>
   clickSend (detailsArrived (Rejected ''Failed to fetch'') (clickEmailList (Some emailA) initialUi))
     = (detailsArrived (Rejected ''Failed to fetch'') (clickEmailList (Some emailA) initialUi))
         \<lparr>modalStatusMessages :=
            Some \<lparr>b_text = ''Error: No email context for sending reply.'',
                  b_type = Danger, b_autoClose = False\<rparr>\<rparr>"
proof -
  let ?s = "(detailsArrived (detailsOk detailsA) (clickEmailList (Some emailA) initialUi))
               \<lparr>modalReplyBody := ''  ''\<rparr>"
  let ?t = "detailsArrived (Rejected ''Failed to fetch'') (clickEmailList (Some emailA) initialUi)"
  have h1: "\<not> detailsAbsent ?s" by code_simp
  have h2: "trim (modalReplyBody ?s) = []" by code_simp
  have h3: "detailsAbsent ?t" by code_simp
  from h1 h2 send_validation [of ?s] h3 send_validation [of ?t]
  show ?thesis by simp
qed

text \<open>
  The claim as stated fails in this state: the details fetch for \<open>emailA\<close> was
  rejected, so the controls are enabled again and the reply-to field is empty. A click
  on "send" shows the danger alert, not the warning.
\<close>

theorem send_without_details_shows_error:
  "trim (modalReplyTo (run [ClickDraftReply emailA,
                            Arrive 0 (DetailsAnswer (Rejected ''Failed to fetch''))] initialUi)) = [] \<and>
   controlsEnabled (run [ClickDraftReply emailA,
                         Arrive 0 (DetailsAnswer (Rejected ''Failed to fetch''))] initialUi) \<and>
   modalStatusMessages
     (run [ClickDraftReply emailA, Arrive 0 (DetailsAnswer (Rejected ''Failed to fetch'')),
           ClickSend] initialUi)
     = Some \<lparr>b_text = ''Error: No email context for sending reply.'', b_type = Danger,
             b_autoClose = False\<rparr>"
  by code_simp

text \<open>
  Claim C8. In every state in which \<open>fullDetails\<close> is absent (no email is selected,
  or the selected one has no details), a click on "regenerate" shows a warning and
  performs no network call: the state after the click is the state before it with the
  warning in the modal status area.
\<close>

theorem regenerate_without_details:
  "detailsAbsent s \<Longrightarrow>
     clickRegenerate s =
       s\<lparr>modalStatusMessages :=
            Some \<lparr>b_text = ''Original email data not available to regenerate draft. Please close and retry.'',
                  b_type = Warning, b_autoClose = False\<rparr>\<rparr> \<and>
     network (clickRegenerate s) = network s \<and> pending (clickRegenerate s) = pending s"
  by (auto simp: detailsAbsent_def clickRegenerate_def displayModalStatus_def escape_plain
      split: option.splits)

theorem regenerate_without_details_witness:
  "network (clickRegenerate
             (detailsArrived (Rejected ''Failed to fetch'') (clickEmailList (Some emailA) initialUi)))
     = [GetEmailDetails ''gmail'' ''1''] \<and>
   network (clickRegenerate initialUi) = []"
proof -
  let ?t = "detailsArrived (Rejected ''Failed to fetch'') (clickEmailList (Some emailA) initialUi)"
  have h: "detailsAbsent ?t" by code_simp
  have n: "network ?t = [GetEmailDetails ''gmail'' ''1'']" by code_simp
  have h0: "detailsAbsent initialUi" by code_simp
  have n0: "network initialUi = []" by code_simp
  from regenerate_without_details [OF h] n regenerate_without_details [OF h0] n0
  show ?thesis by simp
qed

section \<open>Escaping\<close>

lemma set_replaceAll: "set (replaceAll c rep s) \<subseteq> (set s - {c}) \<union> set rep"
  by (induction s) (auto simp: replaceAll_def)

lemma escapeHtmlStr_safe:
  "set (escapeHtmlStr s) \<inter> {CHR ''<'', CHR ''>'', CHR 0x22, CHR 0x27} = {}"
proof -
  let ?s1 = "replaceAll CHR ''&'' ''&amp;'' s"
  let ?s2 = "replaceAll CHR ''<'' ''&lt;'' ?s1"
  let ?s3 = "replaceAll CHR ''>'' ''&gt;'' ?s2"
  let ?s4 = "replaceAll (CHR 0x22) ''&quot;'' ?s3"
  have 2: "CHR ''<'' \<notin> set ?s2" using set_replaceAll [of "CHR ''<''" "''&lt;''" ?s1] by auto
  have 3: "CHR ''<'' \<notin> set ?s3" "CHR ''>'' \<notin> set ?s3"
    using 2 set_replaceAll [of "CHR ''>''" "''&gt;''" ?s2] by auto
  have 4: "CHR ''<'' \<notin> set ?s4" "CHR ''>'' \<notin> set ?s4" "CHR 0x22 \<notin> set ?s4"
    using 3 set_replaceAll [of "CHR 0x22" "''&quot;''" ?s3] by auto
  show ?thesis
    unfolding escapeHtmlStr_def
    using 4 set_replaceAll [of "CHR 0x27" "''&#039;''" ?s4] by auto
qed

text \<open>
  Claim C3. The claim says that every string from email, AI or backend content that
  is inserted into HTML has been escaped by \<open>escapeHtml\<close>. \<open>escapeHtml\<close> itself does
  what the claim says (\<open>escapeHtml_example\<close>, \<open>escapeHtmlStr_safe\<close>), and most
  insertions go through it, but three do not: the \<open>data-platform\<close>, \<open>data-id\<close> and
  \<open>data-thread-id\<close> attributes of a list item (script.js 154-156, next to three
  attributes that are escaped), the error message written to the list in the catch
  block (line 167, the same message that line 168 escapes), and the \<open>href\<close> of a
  source citation (chat\_script.js 27). The code evaluated at such inputs: the \<open>id\<close>
  of \<open>craftedEmail\<close> reaches the HTML of its list item as it is and not in its
  escaped form; an error text of the backend reaches the list as it is; a \<open>webUrl\<close>
  reaches the citation as it is.
\<close>

theorem unescaped_backend_strings_in_html:
  \<open>occursIn ''data-id=""><img src=x onerror=alert(1)>" '' (emailItemHtml (\<lambda>d. d) craftedEmail) \<and>
   \<not> occursIn (escapeHtml (e_id craftedEmail)) (emailItemHtml (\<lambda>d. d) craftedEmail) \<and>
   emailListErrorHtml (emailsNotOkMessage 500 (Json (JsonObject (Some ''<img src=x onerror=alert(1)>''))))
     = ''<li class="list-group-item list-group-item-danger">Error loading emails: Failed to fetch emails: 500 - <img src=x onerror=alert(1)></li>'' \<and>
   sourceHtml \<lparr>src_name = Some ''Doc'', src_webUrl = Some ''" onmouseover="alert(1)''\<rparr>
     = ''<li>Doc (<a href="" onmouseover="alert(1)" target="_blank">link</a>)</li>''\<close>
  by code_simp

section \<open>The chat history\<close>

lemma length_pushAndTrim: "length (pushAndTrim q a h) \<le> 20"
  by (simp add: pushAndTrim_def Let_def)

lemma chatHistory_addMessageToChat [simp]:
  "chatHistory (addMessageToChat sender message sources s) = chatHistory s"
  by (simp add: addMessageToChat_def Let_def)


lemma chatArrived_history:
  "chatHistory (chatArrived q r s) = chatHistory s \<or>
   (\<exists>a. chatHistory (chatArrived q r s) = pushAndTrim q a (chatHistory s))"
  by (auto simp: chatArrived_def Let_def properties_def split: fetched.splits jsonBody.splits jsonValue.splits option.splits)

lemma chatStep_bound:
  assumes "length (chatHistory s) \<le> 20"
  shows "length (chatHistory (chatStep e s)) \<le> 20"
proof (cases e)
  case (TypeInput inp)
  with assms show ?thesis by (simp add: chatStep_def)
next
  case Submit
  with assms show ?thesis by (simp add: chatStep_def handleUserMessage_def Let_def)
next
  case (ChatArrive i r)
  show ?thesis
  proof (cases "i < length (chatPending s)")
    case True
    let ?s = "s\<lparr>chatPending := removeAt i (chatPending s)\<rparr>"
    have "chatHistory ?s = chatHistory s" by simp
    with chatArrived_history [of "chatPending s ! i" r ?s] assms length_pushAndTrim
    have "length (chatHistory (chatArrived (chatPending s ! i) r ?s)) \<le> 20" by auto
    with True ChatArrive show ?thesis by (simp add: chatStep_def)
  next
    case False
    with ChatArrive assms show ?thesis by (simp add: chatStep_def)
  qed
qed

lemma chatRun_bound:
  "length (chatHistory s) \<le> 20 \<Longrightarrow> length (chatHistory (chatRun es s)) \<le> 20"
  unfolding chatRun_def
  by (induction es arbitrary: s) (simp_all add: chatStep_bound)

lemma pushAndTrim_drop:
  "pushAndTrim q a h = drop (length (h @ exchange (q, a)) - 20) (h @ exchange (q, a))"
  by (simp add: pushAndTrim_def exchange_def Let_def)

lemma chatArrived_ok:
  "a \<noteq> [] \<Longrightarrow> chatHistory (chatArrived q (chatOk a) s) = pushAndTrim q a (chatHistory s)"
  by (simp add: chatArrived_def chatOk_def ok_def truthy_def orElse_def Let_def properties_def)

lemma fold_exchanges:
  assumes "\<forall>qa\<in>set xs. snd qa \<noteq> []" "length (chatHistory s) \<le> 20"
  shows "chatHistory (fold (\<lambda>qa. chatArrived (fst qa) (chatOk (snd qa))) xs s)
     = drop (length (chatHistory s @ concat (map exchange xs)) - 20)
         (chatHistory s @ concat (map exchange xs))"
  using assms
proof (induction xs arbitrary: s)
  case Nil
  then show ?case by simp
next
  case (Cons x xs)
  let ?s = "chatArrived (fst x) (chatOk (snd x)) s"
  let ?C = "concat (map exchange xs)"
  let ?X = "chatHistory s @ exchange x"
  let ?k = "length ?X - 20"
  from Cons.prems have hs: "chatHistory ?s = drop ?k ?X"
    by (simp add: chatArrived_ok pushAndTrim_drop)
  then have len: "length (chatHistory ?s) \<le> 20" by simp
  from Cons.prems have "\<forall>qa\<in>set xs. snd qa \<noteq> []" by simp
  from Cons.IH [OF this len]
  have "chatHistory (fold (\<lambda>qa. chatArrived (fst qa) (chatOk (snd qa))) xs ?s)
      = drop (length (drop ?k ?X @ ?C) - 20) (drop ?k ?X @ ?C)"
    unfolding hs .
  also have "drop ?k ?X @ ?C = drop ?k (?X @ ?C)" by simp
  also have "drop (length (drop ?k (?X @ ?C)) - 20) (drop ?k (?X @ ?C))
      = drop (length (?X @ ?C) - 20) (?X @ ?C)"
  proof -
    have "length (drop ?k (?X @ ?C)) - 20 + ?k = length (?X @ ?C) - 20" by simp
    then show ?thesis by (simp only: drop_drop)
  qed
  finally show ?case by simp
qed

lemma drop_exchanges:
  "drop (2 * k) (concat (map exchange xs)) = concat (map exchange (drop k xs))"
proof (induction xs arbitrary: k)
  case Nil
  then show ?case by simp
next
  case (Cons x xs)
  then show ?case by (cases k) (simp_all add: exchange_def)
qed

lemma length_exchanges: "length (concat (map exchange xs)) = 2 * length xs"
  by (induction xs) (simp_all add: exchange_def)

text \<open>
  Claim C9. The chat history never has more than 20 entries: not in any state that
  the page reaches from its initial state, whatever the user types and submits and in
  whatever order the answers arrive, and not after any single append-and-trim step. After
  a sequence of successful exchanges the history consists of the entries of the last
  ten of them, oldest first.
\<close>

theorem chat_history_bounded:
  "length (chatHistory (chatRun es initialChat)) \<le> 20 \<and>
   length (pushAndTrim q a h) \<le> 20 \<and>
   ((\<forall>qa\<in>set xs. snd qa \<noteq> []) \<longrightarrow>
      chatHistory (fold (\<lambda>qa. chatArrived (fst qa) (chatOk (snd qa))) xs initialChat)
        = concat (map exchange (drop (length xs - 10) xs)))"
proof (intro conjI impI)
  show "length (chatHistory (chatRun es initialChat)) \<le> 20"
    by (rule chatRun_bound) (simp add: initialChat_def)
  show "length (pushAndTrim q a h) \<le> 20" by (rule length_pushAndTrim)
next
  assume a: "\<forall>qa\<in>set xs. snd qa \<noteq> []"
  have i: "chatHistory initialChat = []" by (simp add: initialChat_def)
  have "2 * length xs - 20 = 2 * (length xs - 10)" by simp
  with fold_exchanges [OF a, of initialChat] i
  show "chatHistory (fold (\<lambda>qa. chatArrived (fst qa) (chatOk (snd qa))) xs initialChat)
        = concat (map exchange (drop (length xs - 10) xs))"
    by (simp add: length_exchanges drop_exchanges)
qed

theorem chat_history_bounded_witness:
  "chatHistory (fold (\<lambda>qa. chatArrived (fst qa) (chatOk (snd qa))) tenPlusOne initialChat)
     = concat (map exchange (tl tenPlusOne))"
proof -
  have h: "\<forall>qa\<in>set tenPlusOne. snd qa \<noteq> []" by (simp add: tenPlusOne_def)
  have d: "drop (length tenPlusOne - 10) tenPlusOne = tl tenPlusOne" by (simp add: tenPlusOne_def)
  from chat_history_bounded [of "[]" "[]" "[]" "[]" tenPlusOne] h d
  show ?thesis by simp
qed



end
